theory Spec2Isabelle
  imports Complex_Main "HOL-Library.AList" "HOL-Library.FSet" "HOL-Library.Sublist"
begin

section \<open>Shared types\<close>

text \<open>
  JavaScript numbers are modelled as \<^typ>\<open>real\<close> where the source only compares
  them with constants or ranks by them (metrics, sub-scores, insight scores, rates), as
  \<^typ>\<open>int\<close> where it holds millisecond clock readings (\<^verbatim>\<open>Date.now()\<close>) or
  integral counters, and as rounded rationals in the composite quality score, where
  the rounding matters. The values NaN and Infinity are outside the model.
  The string-literal union \<^verbatim>\<open>'critical' | 'high' | 'medium' | 'low'\<close> is shared by
  insight priorities, bottleneck severities and security risk levels.
\<close>

datatype Level = Critical | High | Medium | Low

datatype HealthStatus = Healthy | Degraded | CriticalStatus

section \<open>CognitiveAnalyticsServiceImpl\<close>

record CognitivePerformanceMetrics =
  cp_timestamp :: int
  reasoningAccuracy :: real
  reasoningLatency :: real
  learningConvergence :: real
  predictionAccuracy :: real
  knowledgeGraphSize :: int
  activePatterns :: int

record CognitiveAnalyticsState =
  performanceHistory :: "CognitivePerformanceMetrics list"

definition MAX_HISTORY_SIZE :: nat where
  "MAX_HISTORY_SIZE = 1000"

definition initialCognitiveState :: CognitiveAnalyticsState where
  "initialCognitiveState = \<lparr>performanceHistory = []\<rparr>"

text \<open>
  \<^verbatim>\<open>getCognitivePerformanceMetrics\<close>: the source fills the snapshot from simulated
  telemetry (\<^verbatim>\<open>Math.random\<close>) and the wall clock; the sampled snapshot is the
  argument \<open>metrics\<close>. The method pushes it onto the history and shifts the oldest
  entry out once the length exceeds \<^const>\<open>MAX_HISTORY_SIZE\<close>.
\<close>

definition getCognitivePerformanceMetrics ::
  "CognitivePerformanceMetrics \<Rightarrow> CognitiveAnalyticsState
     \<Rightarrow> CognitivePerformanceMetrics \<times> CognitiveAnalyticsState" where
  "getCognitivePerformanceMetrics metrics s =
     (let pushed = performanceHistory s @ [metrics];
          kept = (if length pushed > MAX_HISTORY_SIZE then tl pushed else pushed)
      in (metrics, s\<lparr>performanceHistory := kept\<rparr>))"

text \<open>A sequence of collection calls, one per sampled snapshot, oldest call first.\<close>

fun collectAll ::
  "CognitivePerformanceMetrics list \<Rightarrow> CognitiveAnalyticsState \<Rightarrow> CognitiveAnalyticsState" where
  "collectAll [] s = s"
| "collectAll (m # ms) s = collectAll ms (snd (getCognitivePerformanceMetrics m s))"

text \<open>
  The local variables \<^verbatim>\<open>issues\<close>, \<^verbatim>\<open>recommendations\<close> and \<^verbatim>\<open>healthScore\<close> of
  \<^verbatim>\<open>getCognitiveSystemHealth\<close>, threaded through its four checks.
\<close>

record HealthAcc =
  acc_issues :: "string list"
  acc_recommendations :: "string list"
  healthScore :: int

definition report :: "string \<Rightarrow> string \<Rightarrow> int \<Rightarrow> HealthAcc \<Rightarrow> HealthAcc" where
  "report issue recommendation penalty a =
     \<lparr>acc_issues = acc_issues a @ [issue],
      acc_recommendations = acc_recommendations a @ [recommendation],
      healthScore = healthScore a - penalty\<rparr>"

definition checkReasoningAccuracy :: "CognitivePerformanceMetrics \<Rightarrow> HealthAcc \<Rightarrow> HealthAcc" where
  "checkReasoningAccuracy metrics a =
     (if reasoningAccuracy metrics < 0.7
      then report ''Reasoning accuracy critically low'' ''Immediate model retraining required'' 30 a
      else if reasoningAccuracy metrics < 0.8
      then report ''Reasoning accuracy below optimal'' ''Schedule model retraining'' 15 a
      else a)"

definition checkReasoningLatency :: "CognitivePerformanceMetrics \<Rightarrow> HealthAcc \<Rightarrow> HealthAcc" where
  "checkReasoningLatency metrics a =
     (if reasoningLatency metrics > 500
      then report ''High reasoning latency detected''
             ''Optimize query patterns and implement caching'' 20 a
      else if reasoningLatency metrics > 200
      then report ''Elevated reasoning latency'' ''Review and optimize critical paths'' 10 a
      else a)"

definition checkLearningConvergence :: "CognitivePerformanceMetrics \<Rightarrow> HealthAcc \<Rightarrow> HealthAcc" where
  "checkLearningConvergence metrics a =
     (if learningConvergence metrics < 0.6
      then report ''Learning algorithms not converging well''
             ''Review training data quality and hyperparameters'' 15 a
      else a)"

definition checkPredictionAccuracy :: "CognitivePerformanceMetrics \<Rightarrow> HealthAcc \<Rightarrow> HealthAcc" where
  "checkPredictionAccuracy metrics a =
     (if predictionAccuracy metrics < 0.7
      then report ''Low prediction accuracy''
             ''Enhance feature engineering and model selection'' 15 a
      else a)"

definition healthChecks :: "CognitivePerformanceMetrics \<Rightarrow> HealthAcc" where
  "healthChecks metrics =
     checkPredictionAccuracy metrics
       (checkLearningConvergence metrics
         (checkReasoningLatency metrics
           (checkReasoningAccuracy metrics
             \<lparr>acc_issues = [], acc_recommendations = [], healthScore = 100\<rparr>)))"

definition statusOf :: "int \<Rightarrow> HealthStatus" where
  "statusOf score =
     (if score \<ge> 80 then Healthy else if score \<ge> 50 then Degraded else CriticalStatus)"

record CognitiveSystemHealth =
  status :: HealthStatus
  issues :: "string list"
  health_recommendations :: "string list"

text \<open>
  \<^verbatim>\<open>getCognitiveSystemHealth\<close> first takes a fresh snapshot through
  \<^const>\<open>getCognitivePerformanceMetrics\<close> (which also records it in the history),
  then runs the checks on it.
\<close>

definition getCognitiveSystemHealth ::
  "CognitivePerformanceMetrics \<Rightarrow> CognitiveAnalyticsState
     \<Rightarrow> CognitiveSystemHealth \<times> CognitiveAnalyticsState" where
  "getCognitiveSystemHealth sampled s =
     (let (metrics, s') = getCognitivePerformanceMetrics sampled s;
          a = healthChecks metrics
      in (\<lparr>status = statusOf (healthScore a),
            issues = acc_issues a,
            health_recommendations = acc_recommendations a\<rparr>, s'))"

section \<open>CodeAnalyticsServiceImpl\<close>

record CodeEvolutionMetrics =
  ce_timestamp :: int
  linesAdded :: int
  linesRemoved :: int
  linesModified :: int
  filesChanged :: int
  complexityDelta :: real
  codeQualityScore :: real

text \<open>
  \<^verbatim>\<open>metricsHistory\<close> is a \<^verbatim>\<open>Map\<close> from workspace root to the array of its snapshots.
  The array stored in the map is the one \<^verbatim>\<open>trackCodeEvolution\<close> mutates and returns,
  so the entry of the map and the returned history are the same list.
\<close>

record CodeAnalyticsState =
  metricsHistory :: "string \<rightharpoonup> CodeEvolutionMetrics list"

definition HISTORY_RETENTION_DAYS :: int where
  "HISTORY_RETENTION_DAYS = 90"

definition initialCodeState :: CodeAnalyticsState where
  "initialCodeState = \<lparr>metricsHistory = Map.empty\<rparr>"

definition loadHistoricalMetrics :: "string \<Rightarrow> CodeEvolutionMetrics list" where
  "loadHistoricalMetrics workspaceRoot = []"

text \<open>The argument \<open>now\<close> is the value \<^verbatim>\<open>Date.now()\<close> returns inside the method.\<close>

definition captureCurrentMetrics :: "int \<Rightarrow> string \<Rightarrow> CodeEvolutionMetrics" where
  "captureCurrentMetrics now workspaceRoot =
     \<lparr>ce_timestamp = now, linesAdded = 0, linesRemoved = 0, linesModified = 0,
      filesChanged = 0, complexityDelta = 0, codeQualityScore = 75\<rparr>"

text \<open>\<^verbatim>\<open>Array.prototype.findIndex\<close>: the first index whose element passes, or -1.\<close>

fun findIndex :: "('a \<Rightarrow> bool) \<Rightarrow> 'a list \<Rightarrow> int" where
  "findIndex p [] = -1"
| "findIndex p (x # xs) =
     (if p x then 0 else (let i = findIndex p xs in if i < 0 then -1 else i + 1))"

text \<open>\<^verbatim>\<open>metrics.splice(0, index)\<close> removes the first \<open>index\<close> elements.\<close>

definition pruneOldMetrics :: "int \<Rightarrow> CodeEvolutionMetrics list \<Rightarrow> CodeEvolutionMetrics list" where
  "pruneOldMetrics now metrics =
     (let cutoffTime = now - (HISTORY_RETENTION_DAYS * 24 * 60 * 60 * 1000);
          index = findIndex (\<lambda>m. ce_timestamp m \<ge> cutoffTime) metrics
      in if index > 0 then drop (nat index) metrics else metrics)"

text \<open>
  \<^verbatim>\<open>trackCodeEvolution\<close> reads the clock twice: \<open>nowCapture\<close> stamps the new snapshot,
  \<open>nowPrune\<close> fixes the cutoff.
\<close>

definition getOrLoadMetrics :: "CodeAnalyticsState \<Rightarrow> string \<Rightarrow> CodeEvolutionMetrics list" where
  "getOrLoadMetrics s workspaceRoot =
     (case metricsHistory s workspaceRoot of
        None \<Rightarrow> loadHistoricalMetrics workspaceRoot
      | Some stored \<Rightarrow> stored)"

definition trackCodeEvolution ::
  "string \<Rightarrow> int \<Rightarrow> int \<Rightarrow> CodeAnalyticsState
     \<Rightarrow> CodeEvolutionMetrics list \<times> CodeAnalyticsState" where
  "trackCodeEvolution workspaceRoot nowCapture nowPrune s =
     (let metrics = getOrLoadMetrics s workspaceRoot;
          pushed = metrics @ [captureCurrentMetrics nowCapture workspaceRoot];
          pruned = pruneOldMetrics nowPrune pushed
      in (pruned, s\<lparr>metricsHistory := (metricsHistory s)(workspaceRoot \<mapsto> pruned)\<rparr>))"

text \<open>
  The private analysers of the class are placeholders that return constants; the
  properties below hold for any analysers, so they are a parameter, and
  \<open>sourceArchitectureAnalyzers\<close> and \<open>sourceQualityScorers\<close> are the ones of the source.
\<close>

record ArchitectureAnalyzers =
  calculateModularity :: "string \<Rightarrow> real"
  calculateCohesion :: "string \<Rightarrow> real"
  calculateCoupling :: "string \<Rightarrow> real"
  calculateMaintainability :: "string \<Rightarrow> real"
  calculateTestability :: "string \<Rightarrow> real"

definition sourceArchitectureAnalyzers :: ArchitectureAnalyzers where
  "sourceArchitectureAnalyzers =
     \<lparr>calculateModularity = (\<lambda>workspaceRoot. 75),
      calculateCohesion = (\<lambda>workspaceRoot. 80),
      calculateCoupling = (\<lambda>workspaceRoot. 35),
      calculateMaintainability = (\<lambda>workspaceRoot. 78),
      calculateTestability = (\<lambda>workspaceRoot. 72)\<rparr>"

record ArchitectureQualityMetrics =
  modularity :: real
  cohesion :: real
  coupling :: real
  maintainability :: real
  testability :: real
  overallScore :: real
  weakPoints :: "string list"
  strengths :: "string list"

text \<open>
  One \<^verbatim>\<open>if (weak) weakPoints.push(..) else if (strong) strengths.push(..)\<close> statement,
  acting on the pair of the two arrays.
\<close>

definition judge ::
  "bool \<Rightarrow> string \<Rightarrow> bool \<Rightarrow> string \<Rightarrow> string list \<times> string list
     \<Rightarrow> string list \<times> string list" where
  "judge weak weakPoint strong strength arrays =
     (if weak then (fst arrays @ [weakPoint], snd arrays)
      else if strong then (fst arrays, snd arrays @ [strength])
      else arrays)"

definition assessArchitectureQuality ::
  "ArchitectureAnalyzers \<Rightarrow> string \<Rightarrow> ArchitectureQualityMetrics" where
  "assessArchitectureQuality an workspaceRoot =
     (let modularity = calculateModularity an workspaceRoot;
          cohesion = calculateCohesion an workspaceRoot;
          coupling = calculateCoupling an workspaceRoot;
          maintainability = calculateMaintainability an workspaceRoot;
          testability = calculateTestability an workspaceRoot;
          overallScore =
            (modularity + cohesion + (100 - coupling) + maintainability + testability) / 5;
          l1 = judge (modularity < 60) ''Low modularity - consider breaking down large modules''
                 (modularity > 80) ''Excellent modularity'' ([], []);
          l2 = judge (cohesion < 60)
                 ''Low cohesion - modules have too many unrelated responsibilities''
                 (cohesion > 80) ''High cohesion - well-focused modules'' l1;
          l3 = judge (coupling > 40) ''High coupling - modules are too interdependent''
                 (coupling < 20) ''Low coupling - good separation of concerns'' l2;
          l4 = judge (maintainability < 60)
                 ''Low maintainability - code is difficult to modify''
                 (maintainability > 80) ''High maintainability'' l3;
          l5 = judge (testability < 60) ''Low testability - code is difficult to test''
                 (testability > 80) ''High testability'' l4
      in \<lparr>modularity = modularity, cohesion = cohesion, coupling = coupling,
           maintainability = maintainability, testability = testability,
           overallScore = overallScore, weakPoints = fst l5, strengths = snd l5\<rparr>)"

text \<open>
  \<^verbatim>\<open>getCodeQualityScore\<close> is computed in IEEE 754 binary64, and what is claimed of it is
  about the rounding. A finite double is modelled as the rational number it denotes;
  every arithmetic operation, and every decimal literal, is the exact rational result
  rounded to the nearest double, ties to even, with gradual underflow. Results beyond
  the largest finite double (which the code turns into Infinity) are outside the model;
  the sub-scores considered lie in [0, 100].
\<close>

text \<open>
  The binary exponent of a positive rational: the \<open>e\<close> with \<open>2 ^ e \<le> x < 2 ^ (e + 1)\<close>, found
  by halving from above or doubling from below.
\<close>

function expoUp :: "rat \<Rightarrow> int" where
  "expoUp x = (if x \<ge> 2 then expoUp (x / 2) + 1 else 0)"
  by pat_completeness auto
termination
proof (relation "measure (\<lambda>x. nat \<lfloor>x\<rfloor>)")
  show "wf (measure (\<lambda>x::rat. nat \<lfloor>x\<rfloor>))"
    by simp
next
  fix x :: rat
  assume "2 \<le> x"
  then have "\<lfloor>x / 2\<rfloor> < \<lfloor>x\<rfloor>" and "0 < \<lfloor>x\<rfloor>"
    by linarith+
  then show "(x / 2, x) \<in> measure (\<lambda>x. nat \<lfloor>x\<rfloor>)"
    by simp
qed

function expoDown :: "rat \<Rightarrow> int" where
  "expoDown x = (if 0 < x \<and> x < 1 then expoDown (x * 2) - 1 else 0)"
  by pat_completeness auto
termination
proof (relation "measure (\<lambda>x. nat \<lfloor>1 / x\<rfloor>)")
  show "wf (measure (\<lambda>x::rat. nat \<lfloor>1 / x\<rfloor>))"
    by simp
next
  fix x :: rat
  assume a: "0 < x \<and> x < 1"
  define y where "y = 1 / x"
  from a have "y > 1"
    by (simp add: y_def)
  then have pos: "1 \<le> \<lfloor>y\<rfloor>"
    by (simp add: le_floor_iff)
  define f :: rat where "f = of_int \<lfloor>y\<rfloor>"
  have "1 \<le> f"
    using \<open>y > 1\<close> by (simp add: f_def)
  moreover have "y < f + 1"
    unfolding f_def by linarith
  ultimately have "y / 2 < f"
    by linarith
  then have "y / 2 < of_int \<lfloor>y\<rfloor>"
    by (simp only: f_def)
  then have "\<lfloor>y / 2\<rfloor> < \<lfloor>y\<rfloor>"
    by (simp add: floor_less_iff)
  with pos have less: "\<lfloor>y / 2\<rfloor> < \<lfloor>y\<rfloor>" and positive: "0 < \<lfloor>y\<rfloor>"
    by simp_all
  have eq: "1 / (x * 2) = y / 2"
    by (simp add: y_def)
  have "\<lfloor>1 / (x * 2)\<rfloor> < \<lfloor>1 / x\<rfloor>"
    unfolding eq y_def [symmetric] by (fact less)
  moreover have "0 < \<lfloor>1 / x\<rfloor>"
    unfolding y_def [symmetric] by (fact positive)
  ultimately show "(x * 2, x) \<in> measure (\<lambda>x. nat \<lfloor>1 / x\<rfloor>)"
    by simp
qed

declare expoUp.simps [simp del] expoDown.simps [simp del]

definition binaryExponent :: "rat \<Rightarrow> int" where
  "binaryExponent x = (if x \<ge> 1 then expoUp x else expoDown x)"

definition roundHalfEven :: "rat \<Rightarrow> int" where
  "roundHalfEven r =
     (let f = \<lfloor>r\<rfloor>; d = r - of_int f
      in if d < 1 / 2 then f else if d > 1 / 2 then f + 1 else if even f then f else f + 1)"

definition roundToDouble :: "rat \<Rightarrow> rat" where
  "roundToDouble x =
     (if x = 0 then 0
      else (let e = max (binaryExponent \<bar>x\<bar>) (- 1022);
                ulp = 2 powi (e - 52)
            in of_int (roundHalfEven (x / ulp)) * ulp))"

text \<open>
  \<^verbatim>\<open>a * b\<close> and \<^verbatim>\<open>a + b\<close> on doubles.
\<close>

definition jsMul :: "rat \<Rightarrow> rat \<Rightarrow> rat" where
  "jsMul a b = roundToDouble (a * b)"

definition jsAdd :: "rat \<Rightarrow> rat \<Rightarrow> rat" where
  "jsAdd a b = roundToDouble (a + b)"

record QualityScorers =
  getComplexityScore :: "string \<Rightarrow> rat"
  getDuplicationScore :: "string \<Rightarrow> rat"
  getCoverageScore :: "string \<Rightarrow> rat"
  getDocumentationScore :: "string \<Rightarrow> rat"
  getStyleComplianceScore :: "string \<Rightarrow> rat"

definition sourceQualityScorers :: QualityScorers where
  "sourceQualityScorers =
     \<lparr>getComplexityScore = (\<lambda>path. 75),
      getDuplicationScore = (\<lambda>path. 80),
      getCoverageScore = (\<lambda>path. 70),
      getDocumentationScore = (\<lambda>path. 65),
      getStyleComplianceScore = (\<lambda>path. 85)\<rparr>"

text \<open>
  The weighted average, summed from left to right as the expression of the source is;
  the literals \<^verbatim>\<open>0.25\<close>, \<^verbatim>\<open>0.2\<close> and \<^verbatim>\<open>0.15\<close> are the doubles nearest to them.
\<close>

definition getCodeQualityScore :: "QualityScorers \<Rightarrow> string \<Rightarrow> rat" where
  "getCodeQualityScore q path =
     (let complexity = getComplexityScore q path;
          duplication = getDuplicationScore q path;
          coverage = getCoverageScore q path;
          documentation = getDocumentationScore q path;
          styleCompliance = getStyleComplianceScore q path
      in jsAdd (jsAdd (jsAdd (jsAdd
           (jsMul complexity (roundToDouble (25 / 100)))
           (jsMul duplication (roundToDouble (2 / 10))))
           (jsMul coverage (roundToDouble (25 / 100))))
           (jsMul documentation (roundToDouble (15 / 100))))
           (jsMul styleCompliance (roundToDouble (15 / 100))))"

section \<open>InsightGenerationServiceImpl\<close>

datatype Category = Performance | Quality | Productivity | Collaboration | Security

datatype Trend = Increasing | Decreasing | Stable

text \<open>
  The responses of the two injected analytics services, as far as the insight generators
  read them.
\<close>

record PerformanceBottleneckPrediction =
  bn_location :: string
  bn_type :: string
  severity :: Level
  bn_description :: string
  estimatedImpact :: real
  bn_recommendations :: "string list"

record DebtIssue =
  issue_id :: string
  issue_category :: string
  issue_severity :: Level
  issue_location :: string
  issue_description :: string
  estimatedEffort :: real
  issue_impact :: real

record TechnicalDebtAnalysis =
  totalDebt :: real
  debtByCategory :: "(string \<times> real) list"
  criticalIssues :: "DebtIssue list"
  debt_recommendations :: "string list"
  trend :: Trend

record RefactoringOpportunity =
  ro_id :: string
  ro_type :: string
  ro_location :: string
  ro_description :: string
  benefit :: real
  effort :: real
  ro_priority :: Level

record SecurityRiskAssessment =
  riskLevel :: Level
  vulnerabilityTypes :: "string list"
  affectedAreas :: "string list"
  sec_recommendations :: "string list"
  cvssScore :: "real option"

text \<open>
  A generated insight. The display texts \<^verbatim>\<open>title\<close> and \<^verbatim>\<open>description\<close> and the opaque
  \<^verbatim>\<open>supportingData\<close> are not modelled: they embed floating-point numbers rendered as
  text, and no operation of the service reads them. The field \<^verbatim>\<open>id\<close> is \<open>insightId\<close>.
\<close>

record GeneratedInsight =
  insightId :: string
  category :: Category
  priority :: Level
  impact :: real
  confidence :: real
  recommendations :: "string list"
  timestamp :: int

record Feedback =
  helpful :: bool
  comment :: "string option"

text \<open>
  The three private collections of the service. The two \<^verbatim>\<open>Map\<close>s are association
  lists in insertion order (the order \<^verbatim>\<open>forEach\<close> visits them); \<^verbatim>\<open>Map.set\<close> is
  \<^const>\<open>AList.update\<close>, which overwrites the value of an existing key in place and
  appends a new key at the end.
\<close>

record InsightState =
  generatedInsights :: "(string \<times> GeneratedInsight) list"
  insightFeedback :: "(string \<times> Feedback list) list"
  acknowledgedInsights :: "string fset"

definition initialInsightState :: InsightState where
  "initialInsightState =
     \<lparr>generatedInsights = [], insightFeedback = [], acknowledgedInsights = {||}\<rparr>"

text \<open>
  What one pass of \<^verbatim>\<open>generateInsights\<close> obtains from outside: the responses of the
  analytics services and the wall clock, \<open>dateNow env k\<close> being the value of the
  \<open>k\<close>-th call of \<^verbatim>\<open>Date.now()\<close> in the pass (counted from 0). The services are
  taken to answer: a rejected promise would abort the pass and is not modelled.
\<close>

record Collaborators =
  healthResponse :: CognitiveSystemHealth
  bottleneckResponse :: "PerformanceBottleneckPrediction list"
  debtResponse :: TechnicalDebtAnalysis
  refactoringResponse :: "RefactoringOpportunity list"
  securityResponse :: SecurityRiskAssessment
  dateNow :: "nat \<Rightarrow> int"

text \<open>A template literal renders an integral number in decimal.\<close>

fun digits :: "nat \<Rightarrow> string" where
  "digits n =
     (if n < 10 then [''0123456789'' ! n]
      else digits (n div 10) @ [''0123456789'' ! (n mod 10)])"

declare digits.simps [simp del]

definition numberToString :: "int \<Rightarrow> string" where
  "numberToString i = (if i < 0 then CHR ''-'' # digits (nat (- i)) else digits (nat i))"

text \<open>
  Each block that may push one insight is a function of the number of clock readings
  taken so far; it returns the pushed insights and the new number of readings. An
  insight literal reads the clock for \<^verbatim>\<open>id\<close> first and for \<^verbatim>\<open>timestamp\<close> last.
\<close>

definition andThen ::
  "(nat \<Rightarrow> 'a list \<times> nat) \<Rightarrow> (nat \<Rightarrow> 'a list \<times> nat) \<Rightarrow> nat \<Rightarrow> 'a list \<times> nat" where
  "andThen f g k = (let (xs, k1) = f k; (ys, k2) = g k1 in (xs @ ys, k2))"

definition degradationInsight :: "Collaborators \<Rightarrow> nat \<Rightarrow> GeneratedInsight list \<times> nat" where
  "degradationInsight env k =
     (let cognitiveHealth = healthResponse env
      in if status cognitiveHealth = Degraded \<or> status cognitiveHealth = CriticalStatus
         then ([\<lparr>insightId = ''perf-'' @ numberToString (dateNow env k) @ ''-1'',
                  category = Performance,
                  priority = (if status cognitiveHealth = CriticalStatus then Critical else High),
                  impact = 85,
                  confidence = 0.92,
                  recommendations = health_recommendations cognitiveHealth,
                  timestamp = dateNow env (k + 1)\<rparr>], k + 2)
         else ([], k))"

definition bottleneckInsight :: "Collaborators \<Rightarrow> nat \<Rightarrow> GeneratedInsight list \<times> nat" where
  "bottleneckInsight env k =
     (let bottlenecks = bottleneckResponse env;
          criticalBottlenecks =
            filter (\<lambda>b. severity b = Critical \<or> severity b = High) bottlenecks
      in if length bottlenecks > 0 \<and> length criticalBottlenecks > 0
         then ([\<lparr>insightId = ''perf-'' @ numberToString (dateNow env k) @ ''-2'',
                  category = Performance,
                  priority = High,
                  impact = 75,
                  confidence = 0.85,
                  recommendations = bn_recommendations (criticalBottlenecks ! 0),
                  timestamp = dateNow env (k + 1)\<rparr>], k + 2)
         else ([], k))"

definition generatePerformanceInsights ::
  "Collaborators \<Rightarrow> nat \<Rightarrow> GeneratedInsight list \<times> nat" where
  "generatePerformanceInsights env = andThen (degradationInsight env) (bottleneckInsight env)"

definition highDebtInsight :: "Collaborators \<Rightarrow> nat \<Rightarrow> GeneratedInsight list \<times> nat" where
  "highDebtInsight env k =
     (let debtAnalysis = debtResponse env
      in if totalDebt debtAnalysis > 40
         then ([\<lparr>insightId = ''quality-'' @ numberToString (dateNow env k) @ ''-1'',
                  category = Quality,
                  priority = (if totalDebt debtAnalysis > 80 then Critical else High),
                  impact = min 100 (totalDebt debtAnalysis),
                  confidence = 0.88,
                  recommendations = debt_recommendations debtAnalysis,
                  timestamp = dateNow env (k + 1)\<rparr>], k + 2)
         else ([], k))"

definition criticalIssueInsight :: "Collaborators \<Rightarrow> nat \<Rightarrow> GeneratedInsight list \<times> nat" where
  "criticalIssueInsight env k =
     (let debtAnalysis = debtResponse env
      in if length (criticalIssues debtAnalysis) > 0
         then ([\<lparr>insightId = ''quality-'' @ numberToString (dateNow env k) @ ''-2'',
                  category = Quality,
                  priority = Critical,
                  impact = 90,
                  confidence = 0.95,
                  recommendations =
                    [''Fix critical issue in '' @ issue_location (criticalIssues debtAnalysis ! 0)],
                  timestamp = dateNow env (k + 1)\<rparr>], k + 2)
         else ([], k))"

definition generateQualityInsights ::
  "Collaborators \<Rightarrow> nat \<Rightarrow> GeneratedInsight list \<times> nat" where
  "generateQualityInsights env = andThen (highDebtInsight env) (criticalIssueInsight env)"

definition generateProductivityInsights ::
  "Collaborators \<Rightarrow> nat \<Rightarrow> GeneratedInsight list \<times> nat" where
  "generateProductivityInsights env k =
     (let refactoringOps = refactoringResponse env;
          highPriorityOps = filter (\<lambda>op. ro_priority op = High) refactoringOps
      in if length highPriorityOps > 0
         then (let totalBenefit = foldl (\<lambda>sum op. sum + benefit op) 0 highPriorityOps;
                   avgBenefit = totalBenefit / real (length highPriorityOps)
               in ([\<lparr>insightId = ''productivity-'' @ numberToString (dateNow env k) @ ''-1'',
                       category = Productivity,
                       priority = Medium,
                       impact = avgBenefit,
                       confidence = 0.82,
                       recommendations =
                         [''Start with '' @ ro_type (highPriorityOps ! 0) @ '' refactoring at ''
                            @ ro_location (highPriorityOps ! 0),
                          ''Allocate time for systematic technical improvement''],
                       timestamp = dateNow env (k + 1)\<rparr>], k + 2))
         else ([], k))"

definition generateSecurityInsights ::
  "Collaborators \<Rightarrow> nat \<Rightarrow> GeneratedInsight list \<times> nat" where
  "generateSecurityInsights env k =
     (let securityRisks = securityResponse env
      in if riskLevel securityRisks = Critical \<or> riskLevel securityRisks = High
         then ([\<lparr>insightId = ''security-'' @ numberToString (dateNow env k) @ ''-1'',
                  category = Security,
                  priority = (if riskLevel securityRisks = Critical then Critical else High),
                  impact = 95,
                  confidence = 0.90,
                  recommendations = sec_recommendations securityRisks,
                  timestamp = dateNow env (k + 1)\<rparr>], k + 2)
         else ([], k))"

definition generateCollaborationInsights ::
  "Collaborators \<Rightarrow> nat \<Rightarrow> GeneratedInsight list \<times> nat" where
  "generateCollaborationInsights env k = ([], k)"

text \<open>
  \<^verbatim>\<open>generateInsights\<close> runs the four generators in order and stores every insight under
  its id.
\<close>

definition storeInsights ::
  "GeneratedInsight list \<Rightarrow> (string \<times> GeneratedInsight) list
     \<Rightarrow> (string \<times> GeneratedInsight) list" where
  "storeInsights insights store =
     fold (\<lambda>insight m. AList.update (insightId insight) insight m) insights store"

definition generateInsights ::
  "Collaborators \<Rightarrow> InsightState \<Rightarrow> GeneratedInsight list \<times> InsightState" where
  "generateInsights env s =
     (let insights =
            fst (andThen (generatePerformanceInsights env)
                  (andThen (generateQualityInsights env)
                    (andThen (generateProductivityInsights env)
                      (generateSecurityInsights env))) 0)
      in (insights, s\<lparr>generatedInsights := storeInsights insights (generatedInsights s)\<rparr>))"

definition generateInsightsByCategory ::
  "Category \<Rightarrow> Collaborators \<Rightarrow> GeneratedInsight list" where
  "generateInsightsByCategory c env =
     (case c of
        Performance \<Rightarrow> fst (generatePerformanceInsights env 0)
      | Quality \<Rightarrow> fst (generateQualityInsights env 0)
      | Productivity \<Rightarrow> fst (generateProductivityInsights env 0)
      | Security \<Rightarrow> fst (generateSecurityInsights env 0)
      | Collaboration \<Rightarrow> fst (generateCollaborationInsights env 0))"

definition priorityWeight :: "Level \<Rightarrow> real" where
  "priorityWeight p = (case p of Critical \<Rightarrow> 4 | High \<Rightarrow> 3 | Medium \<Rightarrow> 2 | Low \<Rightarrow> 1)"

definition insightScore :: "GeneratedInsight \<Rightarrow> real" where
  "insightScore a = priorityWeight (priority a) * impact a * confidence a"

text \<open>
  \<^verbatim>\<open>slice(0, end)\<close> for an integral end index: a negative one counts from the end of the
  array.
\<close>

definition slice0 :: "int \<Rightarrow> 'a list \<Rightarrow> 'a list" where
  "slice0 endIndex xs =
     (if endIndex < 0 then take (nat (int (length xs) + endIndex)) xs
      else take (nat endIndex) xs)"


definition getPersonalizedInsights ::
  "string \<Rightarrow> Collaborators \<Rightarrow> InsightState \<Rightarrow> GeneratedInsight list \<times> InsightState" where
  "getPersonalizedInsights userId env s =
     (let (allInsights, s') = generateInsights env s
      in (slice0 5 (filter (\<lambda>insight. insightId insight |\<notin>| acknowledgedInsights s')
                      allInsights), s'))"

definition acknowledgeInsight :: "string \<Rightarrow> InsightState \<Rightarrow> InsightState" where
  "acknowledgeInsight insightId' s =
     s\<lparr>acknowledgedInsights := finsert insightId' (acknowledgedInsights s)\<rparr>"

definition provideInsightFeedback ::
  "string \<Rightarrow> bool \<Rightarrow> string option \<Rightarrow> InsightState \<Rightarrow> InsightState" where
  "provideInsightFeedback insightId' helpful' comment' s =
     (let fb = (case map_of (insightFeedback s) insightId' of
                  None \<Rightarrow> AList.update insightId' [] (insightFeedback s)
                | Some _ \<Rightarrow> insightFeedback s);
          current = (case map_of fb insightId' of None \<Rightarrow> [] | Some l \<Rightarrow> l)
      in s\<lparr>insightFeedback :=
             AList.update insightId' (current @ [\<lparr>helpful = helpful', comment = comment'\<rparr>]) fb\<rparr>)"

text \<open>The two counters of \<^verbatim>\<open>getInsightAcceptanceRate\<close>, as a pair (total, helpful).\<close>

definition countFeedback :: "Feedback \<Rightarrow> nat \<times> nat \<Rightarrow> nat \<times> nat" where
  "countFeedback feedback counters =
     (fst counters + 1, if helpful feedback then snd counters + 1 else snd counters)"

definition getInsightAcceptanceRate :: "InsightState \<Rightarrow> real" where
  "getInsightAcceptanceRate s =
     (let counters = fold (\<lambda>entry c. fold countFeedback (snd entry) c) (insightFeedback s) (0, 0);
          totalFeedback = fst counters;
          helpfulCount = snd counters
      in if totalFeedback > 0 then real helpfulCount / real totalFeedback else 0)"

definition getHistoricalInsights :: "int \<Rightarrow> int \<Rightarrow> InsightState \<Rightarrow> GeneratedInsight list" where
  "getHistoricalInsights rangeStart rangeEnd s =
     sort_key (\<lambda>a. - timestamp a)
       (filter (\<lambda>insight. timestamp insight \<ge> rangeStart \<and> timestamp insight \<le> rangeEnd)
          (map snd (generatedInsights s)))"

text \<open>A sequence of feedback calls, oldest first.\<close>

fun feedbackAll :: "(string \<times> bool \<times> string option) list \<Rightarrow> InsightState \<Rightarrow> InsightState" where
  "feedbackAll [] s = s"
| "feedbackAll ((i, h, c) # calls) s = feedbackAll calls (provideInsightFeedback i h c s)"

text \<open>The id prefix the generators use for each category.\<close>

definition categoryPrefix :: "Category \<Rightarrow> string" where
  "categoryPrefix c =
     (case c of Performance \<Rightarrow> ''perf'' | Quality \<Rightarrow> ''quality''
      | Productivity \<Rightarrow> ''productivity'' | Security \<Rightarrow> ''security''
      | Collaboration \<Rightarrow> ''collaboration'')"

text \<open>All feedback records in the store, list by list in insertion order of the ids.\<close>

definition allFeedback :: "InsightState \<Rightarrow> Feedback list" where
  "allFeedback s = concat (map snd (insightFeedback s))"

text \<open>
  The shape of the id of an insight built from the \<open>k\<close>-th clock reading on: category
  prefix, that reading, block index 1 or 2; the timestamp is the next reading.
\<close>

definition hasIdShape :: "Collaborators \<Rightarrow> nat \<Rightarrow> GeneratedInsight \<Rightarrow> bool" where
  "hasIdShape env k i \<longleftrightarrow>
     timestamp i = dateNow env (k + 1) \<and>
     (insightId i = categoryPrefix (category i) @ ''-'' @ numberToString (dateNow env k) @ ''-1''
      \<or> insightId i = categoryPrefix (category i) @ ''-'' @ numberToString (dateNow env k) @ ''-2'')"

section \<open>Example inputs\<close>

text \<open>
  \<open>sourceEnv\<close> holds the responses of the analytics services of the source on a
  degraded health report; \<open>tieEnv\<close> a critical debt issue together with a critical
  security risk; \<open>stalledClockEnv\<close> a pass during which the clock does not advance.
\<close>

definition sourceEnv :: Collaborators where
  "sourceEnv =
     \<lparr>healthResponse =
        \<lparr>status = Degraded, issues = [''Reasoning accuracy below optimal''],
         health_recommendations = [''Schedule model retraining'']\<rparr>,
      bottleneckResponse =
        [\<lparr>bn_location = ''src/data/query-processor.ts:67'', bn_type = ''cpu'',
          severity = High,
          bn_description = ''O(n^2) nested loop processing large datasets'',
          estimatedImpact = 45,
          bn_recommendations =
            [''Use hash map for O(1) lookups instead of nested iteration'',
             ''Consider processing in batches'',
             ''Add caching for frequently accessed data'']\<rparr>],
      debtResponse =
        \<lparr>totalDebt = 51,
         debtByCategory =
           [(''code-smell'', 12), (''duplication'', 8), (''complexity'', 15),
            (''deprecated'', 6), (''security'', 10)],
         criticalIssues =
           [\<lparr>issue_id = ''debt-001'', issue_category = ''security'', issue_severity = Critical,
             issue_location = ''src/auth/token-handler.ts'',
             issue_description = ''Using deprecated cryptographic algorithm'',
             estimatedEffort = 4, issue_impact = 95\<rparr>],
         debt_recommendations =
           [''Address 1 critical security and stability issues immediately'',
            ''Prioritize complexity reduction through refactoring'',
            ''Eliminate code duplication through extraction and reuse''],
         trend = Stable\<rparr>,
      refactoringResponse =
        [\<lparr>ro_id = ''refactor-001'', ro_type = ''extract-method'',
          ro_location = ''src/services/data-processor.ts:45-120'',
          ro_description =
            ''Long method with multiple responsibilities - extract data validation logic'',
          benefit = 85, effort = 2, ro_priority = High\<rparr>,
         \<lparr>ro_id = ''refactor-002'', ro_type = ''simplify'',
          ro_location = ''src/utils/conditional-logic.ts:25-60'',
          ro_description = ''Complex nested conditionals - simplify using strategy pattern'',
          benefit = 70, effort = 3, ro_priority = Medium\<rparr>],
      securityResponse =
        \<lparr>riskLevel = Medium, vulnerabilityTypes = [], affectedAreas = [],
         sec_recommendations = [], cvssScore = Some 6.5\<rparr>,
      dateNow = (\<lambda>k. 1700000000000 + int k)\<rparr>"

definition stalledClockEnv :: "HealthStatus \<Rightarrow> Collaborators" where
  "stalledClockEnv st =
     \<lparr>healthResponse = \<lparr>status = st, issues = [], health_recommendations = []\<rparr>,
      bottleneckResponse = [],
      debtResponse =
        \<lparr>totalDebt = 0, debtByCategory = [], criticalIssues = [],
         debt_recommendations = [], trend = Stable\<rparr>,
      refactoringResponse = [],
      securityResponse =
        \<lparr>riskLevel = Low, vulnerabilityTypes = [], affectedAreas = [],
         sec_recommendations = [], cvssScore = None\<rparr>,
      dateNow = (\<lambda>k. 1700000000000)\<rparr>"

definition tieEnv :: Collaborators where
  "tieEnv =
     \<lparr>healthResponse = \<lparr>status = Healthy, issues = [], health_recommendations = []\<rparr>,
      bottleneckResponse = [],
      debtResponse =
        \<lparr>totalDebt = 30, debtByCategory = [], 
         criticalIssues =
           [\<lparr>issue_id = ''debt-001'', issue_category = ''security'', issue_severity = Critical,
             issue_location = ''src/auth/token-handler.ts'',
             issue_description = ''Using deprecated cryptographic algorithm'',
             estimatedEffort = 4, issue_impact = 95\<rparr>],
         debt_recommendations = [], trend = Stable\<rparr>,
      refactoringResponse = [],
      securityResponse =
        \<lparr>riskLevel = Critical, vulnerabilityTypes = [], affectedAreas = [],
         sec_recommendations = [], cvssScore = None\<rparr>,
      dateNow = (\<lambda>k. 1700000000000 + int k)\<rparr>"

text \<open>
  Analysers and scorers that return the given constants, and two stored histories of one
  workspace: a one-day-old snapshot followed by a 100-day-old one, and the same two in
  chronological order (ages counted back from the reading 1700000000000).
\<close>

definition constantAnalyzers :: "real \<Rightarrow> real \<Rightarrow> real \<Rightarrow> real \<Rightarrow> real \<Rightarrow> ArchitectureAnalyzers" where
  "constantAnalyzers m c cp mt t =
     \<lparr>calculateModularity = (\<lambda>workspaceRoot. m),
      calculateCohesion = (\<lambda>workspaceRoot. c),
      calculateCoupling = (\<lambda>workspaceRoot. cp),
      calculateMaintainability = (\<lambda>workspaceRoot. mt),
      calculateTestability = (\<lambda>workspaceRoot. t)\<rparr>"

definition constantScorers :: "rat \<Rightarrow> rat \<Rightarrow> rat \<Rightarrow> rat \<Rightarrow> rat \<Rightarrow> QualityScorers" where
  "constantScorers c d cov doc st =
     \<lparr>getComplexityScore = (\<lambda>path. c),
      getDuplicationScore = (\<lambda>path. d),
      getCoverageScore = (\<lambda>path. cov),
      getDocumentationScore = (\<lambda>path. doc),
      getStyleComplianceScore = (\<lambda>path. st)\<rparr>"

definition unorderedHistoryState :: CodeAnalyticsState where
  "unorderedHistoryState =
     \<lparr>metricsHistory = [''/workspace'' \<mapsto>
        [captureCurrentMetrics 1699913600000 ''/workspace'',
         captureCurrentMetrics 1691360000000 ''/workspace'']]\<rparr>"

definition orderedHistoryState :: CodeAnalyticsState where
  "orderedHistoryState =
     \<lparr>metricsHistory = [''/workspace'' \<mapsto>
        [captureCurrentMetrics 1691360000000 ''/workspace'',
         captureCurrentMetrics 1699913600000 ''/workspace'']]\<rparr>"

definition helpfulCalls :: "(string \<times> bool \<times> string option) list" where
  "helpfulCalls =
     [(''perf-1700000000000-1'', True, None),
      (''quality-1700000000000-2'', True, Some ''fixed''),
      (''perf-1700000000000-1'', True, None)]"

definition snapshotAt :: "nat \<Rightarrow> CognitivePerformanceMetrics" where
  "snapshotAt i =
     \<lparr>cp_timestamp = 1700000000000 + int i, reasoningAccuracy = 0.85,
      reasoningLatency = 100, learningConvergence = 0.85, predictionAccuracy = 0.9,
      knowledgeGraphSize = 15000, activePatterns = 450\<rparr>"

section \<open>Health score and classification\<close>

lemma healthScore_report [simp]: "healthScore (report i r p a) = healthScore a - p"
  by (simp add: report_def)

lemma healthScore_accuracy:
  "healthScore (checkReasoningAccuracy m a) =
     healthScore a - (if reasoningAccuracy m < 0.7 then 30 else 0)
                   - (if 0.7 \<le> reasoningAccuracy m \<and> reasoningAccuracy m < 0.8 then 15 else 0)"
  by (simp add: checkReasoningAccuracy_def)

lemma healthScore_latency:
  "healthScore (checkReasoningLatency m a) =
     healthScore a - (if reasoningLatency m > 500 then 20 else 0)
                   - (if 200 < reasoningLatency m \<and> reasoningLatency m \<le> 500 then 10 else 0)"
  by (simp add: checkReasoningLatency_def)

lemma healthScore_convergence:
  "healthScore (checkLearningConvergence m a) =
     healthScore a - (if learningConvergence m < 0.6 then 15 else 0)"
  by (simp add: checkLearningConvergence_def)

lemma healthScore_prediction:
  "healthScore (checkPredictionAccuracy m a) =
     healthScore a - (if predictionAccuracy m < 0.7 then 15 else 0)"
  by (simp add: checkPredictionAccuracy_def)

lemma healthScore_healthChecks:
  "healthScore (healthChecks m) =
     100 - (if reasoningAccuracy m < 0.7 then 30 else 0)
         - (if 0.7 \<le> reasoningAccuracy m \<and> reasoningAccuracy m < 0.8 then 15 else 0)
         - (if reasoningLatency m > 500 then 20 else 0)
         - (if 200 < reasoningLatency m \<and> reasoningLatency m \<le> 500 then 10 else 0)
         - (if learningConvergence m < 0.6 then 15 else 0)
         - (if predictionAccuracy m < 0.7 then 15 else 0)"
  unfolding healthChecks_def
  by (simp only: healthScore_prediction healthScore_convergence healthScore_latency
        healthScore_accuracy HealthAcc.simps)

lemma status_getCognitiveSystemHealth:
  "status (fst (getCognitiveSystemHealth m s)) = statusOf (healthScore (healthChecks m))"
  by (simp add: getCognitiveSystemHealth_def getCognitivePerformanceMetrics_def Let_def)

text \<open>
  Claim C1. The health score starts at 100 and loses exactly the fixed penalty of each
  violated threshold (accuracy below 0.7: 30; accuracy in [0.7, 0.8): 15; latency above
  500: 20; latency in (200, 500]: 10; convergence below 0.6: 15; prediction accuracy
  below 0.7: 15), the penalties adding up independently. The returned status is healthy
  for a score of at least 80, degraded for a score in [50, 80) and critical below 50.
  For accuracy 0.65, latency 100, convergence 0.9 and prediction accuracy 0.9 the score
  is 70 and the status is degraded.
\<close>

theorem getCognitiveSystemHealth_score_and_status:
  "healthScore (healthChecks m) =
     100 - (if reasoningAccuracy m < 0.7 then 30 else 0)
         - (if 0.7 \<le> reasoningAccuracy m \<and> reasoningAccuracy m < 0.8 then 15 else 0)
         - (if reasoningLatency m > 500 then 20 else 0)
         - (if 200 < reasoningLatency m \<and> reasoningLatency m \<le> 500 then 10 else 0)
         - (if learningConvergence m < 0.6 then 15 else 0)
         - (if predictionAccuracy m < 0.7 then 15 else 0)
   \<and> status (fst (getCognitiveSystemHealth m s)) =
       (if healthScore (healthChecks m) \<ge> 80 then Healthy
        else if healthScore (healthChecks m) \<ge> 50 then Degraded
        else CriticalStatus)
   \<and> (reasoningAccuracy m = 0.65 \<and> reasoningLatency m = 100 \<and>
      learningConvergence m = 0.9 \<and> predictionAccuracy m = 0.9
      \<longrightarrow> healthScore (healthChecks m) = 70 \<and>
          status (fst (getCognitiveSystemHealth m s)) = Degraded)"
proof -
  have score: "healthScore (healthChecks m) =
     100 - (if reasoningAccuracy m < 0.7 then 30 else 0)
         - (if 0.7 \<le> reasoningAccuracy m \<and> reasoningAccuracy m < 0.8 then 15 else 0)
         - (if reasoningLatency m > 500 then 20 else 0)
         - (if 200 < reasoningLatency m \<and> reasoningLatency m \<le> 500 then 10 else 0)
         - (if learningConvergence m < 0.6 then 15 else 0)
         - (if predictionAccuracy m < 0.7 then 15 else 0)"
    by (rule healthScore_healthChecks)
  have cls: "status (fst (getCognitiveSystemHealth m s)) =
       (if healthScore (healthChecks m) \<ge> 80 then Healthy
        else if healthScore (healthChecks m) \<ge> 50 then Degraded
        else CriticalStatus)"
    by (simp add: status_getCognitiveSystemHealth statusOf_def)
  have ex: "healthScore (healthChecks m) = 70 \<and>
          status (fst (getCognitiveSystemHealth m s)) = Degraded"
    if "reasoningAccuracy m = 0.65 \<and> reasoningLatency m = 100 \<and>
      learningConvergence m = 0.9 \<and> predictionAccuracy m = 0.9"
  proof -
    from that have "healthScore (healthChecks m) = 70"
      by (simp add: score)
    then show ?thesis
      by (simp add: cls)
  qed
  from score cls ex show ?thesis
    by blast
qed

theorem getCognitiveSystemHealth_example_witness:
  "healthScore (healthChecks
      \<lparr>cp_timestamp = 1700000000000, reasoningAccuracy = 0.65, reasoningLatency = 100,
       learningConvergence = 0.9, predictionAccuracy = 0.9,
       knowledgeGraphSize = 15000, activePatterns = 450\<rparr>) = 70
   \<and> status (fst (getCognitiveSystemHealth
      \<lparr>cp_timestamp = 1700000000000, reasoningAccuracy = 0.65, reasoningLatency = 100,
       learningConvergence = 0.9, predictionAccuracy = 0.9,
       knowledgeGraphSize = 15000, activePatterns = 450\<rparr> initialCognitiveState)) = Degraded"
  using getCognitiveSystemHealth_score_and_status
    [of "\<lparr>cp_timestamp = 1700000000000, reasoningAccuracy = 0.65, reasoningLatency = 100,
       learningConvergence = 0.9, predictionAccuracy = 0.9,
       knowledgeGraphSize = 15000, activePatterns = 450\<rparr>" initialCognitiveState]
  by simp

section \<open>Bounded performance history\<close>

lemma history_after_collection:
  assumes "length (performanceHistory s) \<le> MAX_HISTORY_SIZE"
  shows "performanceHistory (snd (getCognitivePerformanceMetrics m s)) =
           drop (length (performanceHistory s @ [m]) - MAX_HISTORY_SIZE)
             (performanceHistory s @ [m])"
proof (cases "length (performanceHistory s) = MAX_HISTORY_SIZE")
  case True
  then have "length (performanceHistory s @ [m]) - MAX_HISTORY_SIZE = 1"
    by simp
  moreover have "length (performanceHistory s @ [m]) > MAX_HISTORY_SIZE"
    using True by simp
  moreover have "drop 1 (performanceHistory s @ [m]) = tl (performanceHistory s @ [m])"
    by (simp only: One_nat_def drop_Suc drop_0)
  ultimately have "drop (length (performanceHistory s @ [m]) - MAX_HISTORY_SIZE)
             (performanceHistory s @ [m]) = tl (performanceHistory s @ [m])"
    and "length (performanceHistory s @ [m]) > MAX_HISTORY_SIZE"
    by simp_all
  then show ?thesis
    by (simp add: getCognitivePerformanceMetrics_def Let_def del: length_append)
next
  case False
  with assms have "length (performanceHistory s @ [m]) \<le> MAX_HISTORY_SIZE"
    by simp
  then show ?thesis
    by (simp add: getCognitivePerformanceMetrics_def Let_def)
qed

lemma history_length_after_collection:
  assumes "length (performanceHistory s) \<le> MAX_HISTORY_SIZE"
  shows "length (performanceHistory (snd (getCognitivePerformanceMetrics m s)))
           \<le> MAX_HISTORY_SIZE"
  using assms by (simp add: history_after_collection [OF assms])

lemma history_collectAll:
  "length (performanceHistory s) \<le> MAX_HISTORY_SIZE \<Longrightarrow>
   performanceHistory (collectAll ms s) =
     drop (length (performanceHistory s @ ms) - MAX_HISTORY_SIZE) (performanceHistory s @ ms)"
proof (induction ms arbitrary: s)
  case Nil
  then show ?case by simp
next
  case (Cons m ms)
  let ?h = "performanceHistory s"
  let ?s1 = "snd (getCognitivePerformanceMetrics m s)"
  let ?k = "length (?h @ [m]) - MAX_HISTORY_SIZE"
  have h1: "performanceHistory ?s1 = drop ?k (?h @ [m])"
    by (rule history_after_collection [OF Cons.prems])
  have len1: "length (performanceHistory ?s1) \<le> MAX_HISTORY_SIZE"
    by (rule history_length_after_collection [OF Cons.prems])
  have k_le: "?k \<le> length (?h @ [m])"
    by simp
  have "drop ?k ((?h @ [m]) @ ms) = drop ?k (?h @ [m]) @ drop (?k - length (?h @ [m])) ms"
    by (rule drop_append)
  moreover have "?k - length (?h @ [m]) = 0"
    by simp
  ultimately have app: "performanceHistory ?s1 @ ms = drop ?k (?h @ m # ms)"
    by (simp only: h1 drop_0 append_assoc append.simps)
  have idx: "length (performanceHistory ?s1 @ ms) - MAX_HISTORY_SIZE + ?k
               = length (?h @ m # ms) - MAX_HISTORY_SIZE"
    using h1 Cons.prems by (simp add: min_def)
  have "performanceHistory (collectAll (m # ms) s) = performanceHistory (collectAll ms ?s1)"
    by simp
  also have "\<dots> = drop (length (performanceHistory ?s1 @ ms) - MAX_HISTORY_SIZE)
                    (performanceHistory ?s1 @ ms)"
    by (rule Cons.IH [OF len1])
  also have "\<dots> = drop (length (performanceHistory ?s1 @ ms) - MAX_HISTORY_SIZE + ?k)
                    (?h @ m # ms)"
    by (simp only: app drop_drop)
  also have "\<dots> = drop (length (?h @ m # ms) - MAX_HISTORY_SIZE) (?h @ m # ms)"
    by (simp only: idx)
  finally show ?case .
qed

lemma history_from_initial:
  "performanceHistory (collectAll ms initialCognitiveState) =
     drop (length ms - MAX_HISTORY_SIZE) ms"
  using history_collectAll [of initialCognitiveState ms]
  by (simp add: initialCognitiveState_def)

text \<open>
  Claim C8. The performance history is bounded by the fixed capacity of 1000: after any
  sequence of calls to getCognitivePerformanceMetrics, starting from the empty history,
  the history holds at most 1000 snapshots, namely the most recent ones in call order;
  a further call on a full history drops the oldest snapshot and keeps all newer ones,
  in order, followed by the new one.
\<close>

theorem performanceHistory_bounded_fifo:
  "MAX_HISTORY_SIZE = 1000
   \<and> length (performanceHistory (collectAll ms initialCognitiveState)) \<le> MAX_HISTORY_SIZE
   \<and> performanceHistory (collectAll ms initialCognitiveState) =
       drop (length ms - MAX_HISTORY_SIZE) ms
   \<and> performanceHistory
       (snd (getCognitivePerformanceMetrics m (collectAll ms initialCognitiveState))) =
       (if length ms \<ge> MAX_HISTORY_SIZE
        then tl (performanceHistory (collectAll ms initialCognitiveState)) @ [m]
        else performanceHistory (collectAll ms initialCognitiveState) @ [m])"
proof -
  let ?h = "performanceHistory (collectAll ms initialCognitiveState)"
  have h: "?h = drop (length ms - MAX_HISTORY_SIZE) ms"
    by (rule history_from_initial)
  have len: "length ?h = min (length ms) MAX_HISTORY_SIZE"
    by (simp add: h min_def)
  have step: "performanceHistory
       (snd (getCognitivePerformanceMetrics m (collectAll ms initialCognitiveState))) =
       (if length ms \<ge> MAX_HISTORY_SIZE then tl ?h @ [m] else ?h @ [m])"
  proof (cases "length ms \<ge> MAX_HISTORY_SIZE")
    case True
    with len have full: "length ?h = MAX_HISTORY_SIZE"
      by simp
    then have "?h \<noteq> []"
      by (auto simp: MAX_HISTORY_SIZE_def)
    with full True show ?thesis
      by (simp add: getCognitivePerformanceMetrics_def Let_def)
  next
    case False
    with len have "length ?h < MAX_HISTORY_SIZE"
      by simp
    with False show ?thesis
      by (simp add: getCognitivePerformanceMetrics_def Let_def)
  qed
  from h len step show ?thesis
    by (simp add: MAX_HISTORY_SIZE_def)
qed

text \<open>The 1001st snapshot evicts the first one; snapshots 1 to 1000 remain, in order.\<close>

theorem performanceHistory_bounded_fifo_witness:
  "performanceHistory (collectAll (map snapshotAt [0..<1001]) initialCognitiveState) =
     map snapshotAt [1..<1001]
   \<and> length (performanceHistory
        (collectAll (map snapshotAt [0..<1001]) initialCognitiveState)) = 1000"
  using performanceHistory_bounded_fifo [of "map snapshotAt [0..<1001]" "snapshotAt 0"]
  by (simp add: MAX_HISTORY_SIZE_def drop_map)

section \<open>Architecture quality thresholds\<close>

lemma set_fst_judge:
  "set (fst (judge w wm st sm acc)) = set (fst acc) \<union> (if w then {wm} else {})"
  by (simp add: judge_def)

lemma set_snd_judge:
  "set (snd (judge w wm st sm acc)) = set (snd acc) \<union> (if \<not> w \<and> st then {sm} else {})"
  by (simp add: judge_def)

lemma set_weakPoints:
  "set (weakPoints (assessArchitectureQuality an ws)) =
     (if calculateModularity an ws < 60
      then {''Low modularity - consider breaking down large modules''} else {}) \<union>
     (if calculateCohesion an ws < 60
      then {''Low cohesion - modules have too many unrelated responsibilities''} else {}) \<union>
     (if calculateCoupling an ws > 40
      then {''High coupling - modules are too interdependent''} else {}) \<union>
     (if calculateMaintainability an ws < 60
      then {''Low maintainability - code is difficult to modify''} else {}) \<union>
     (if calculateTestability an ws < 60
      then {''Low testability - code is difficult to test''} else {})"
  by (simp only: assessArchitectureQuality_def Let_def ArchitectureQualityMetrics.simps
        set_fst_judge fst_conv list.set Un_empty_left Un_assoc)

lemma set_strengths:
  "set (strengths (assessArchitectureQuality an ws)) =
     (if \<not> calculateModularity an ws < 60 \<and> calculateModularity an ws > 80
      then {''Excellent modularity''} else {}) \<union>
     (if \<not> calculateCohesion an ws < 60 \<and> calculateCohesion an ws > 80
      then {''High cohesion - well-focused modules''} else {}) \<union>
     (if \<not> calculateCoupling an ws > 40 \<and> calculateCoupling an ws < 20
      then {''Low coupling - good separation of concerns''} else {}) \<union>
     (if \<not> calculateMaintainability an ws < 60 \<and> calculateMaintainability an ws > 80
      then {''High maintainability''} else {}) \<union>
     (if \<not> calculateTestability an ws < 60 \<and> calculateTestability an ws > 80
      then {''High testability''} else {})"
  by (simp only: assessArchitectureQuality_def Let_def ArchitectureQualityMetrics.simps
        set_snd_judge snd_conv list.set Un_empty_left Un_assoc)

lemma subscores_assessArchitectureQuality:
  "modularity (assessArchitectureQuality an ws) = calculateModularity an ws"
  "cohesion (assessArchitectureQuality an ws) = calculateCohesion an ws"
  "coupling (assessArchitectureQuality an ws) = calculateCoupling an ws"
  "maintainability (assessArchitectureQuality an ws) = calculateMaintainability an ws"
  "testability (assessArchitectureQuality an ws) = calculateTestability an ws"
  by (simp_all add: assessArchitectureQuality_def Let_def)

lemma weak_entries:
  "''Low modularity - consider breaking down large modules''
      \<in> set (weakPoints (assessArchitectureQuality an ws)) \<longleftrightarrow> calculateModularity an ws < 60"
  "''Low cohesion - modules have too many unrelated responsibilities''
      \<in> set (weakPoints (assessArchitectureQuality an ws)) \<longleftrightarrow> calculateCohesion an ws < 60"
  "''High coupling - modules are too interdependent''
      \<in> set (weakPoints (assessArchitectureQuality an ws)) \<longleftrightarrow> calculateCoupling an ws > 40"
  "''Low maintainability - code is difficult to modify''
      \<in> set (weakPoints (assessArchitectureQuality an ws)) \<longleftrightarrow> calculateMaintainability an ws < 60"
  "''Low testability - code is difficult to test''
      \<in> set (weakPoints (assessArchitectureQuality an ws)) \<longleftrightarrow> calculateTestability an ws < 60"
  by (simp_all add: set_weakPoints)

lemma strength_entries:
  "''Excellent modularity''
      \<in> set (strengths (assessArchitectureQuality an ws)) \<longleftrightarrow> calculateModularity an ws > 80"
  "''High cohesion - well-focused modules''
      \<in> set (strengths (assessArchitectureQuality an ws)) \<longleftrightarrow> calculateCohesion an ws > 80"
  "''Low coupling - good separation of concerns''
      \<in> set (strengths (assessArchitectureQuality an ws)) \<longleftrightarrow> calculateCoupling an ws < 20"
  "''High maintainability''
      \<in> set (strengths (assessArchitectureQuality an ws)) \<longleftrightarrow> calculateMaintainability an ws > 80"
  "''High testability''
      \<in> set (strengths (assessArchitectureQuality an ws)) \<longleftrightarrow> calculateTestability an ws > 80"
  by (simp_all add: set_strengths)

lemma if_singleton_subset: "(if c then {x} else {}) \<subseteq> A \<longleftrightarrow> (c \<longrightarrow> x \<in> A)"
  by simp

lemma weakPoints_subset:
  "set (weakPoints (assessArchitectureQuality an ws)) \<subseteq>
       {''Low modularity - consider breaking down large modules'',
        ''Low cohesion - modules have too many unrelated responsibilities'',
        ''High coupling - modules are too interdependent'',
        ''Low maintainability - code is difficult to modify'',
        ''Low testability - code is difficult to test''}"
  unfolding set_weakPoints Un_subset_iff if_singleton_subset
  by (intro conjI impI insertI1 insertI2)

lemma strengths_subset:
  "set (strengths (assessArchitectureQuality an ws)) \<subseteq>
       {''Excellent modularity'', ''High cohesion - well-focused modules'',
        ''Low coupling - good separation of concerns'', ''High maintainability'',
        ''High testability''}"
  unfolding set_strengths Un_subset_iff if_singleton_subset
  by (intro conjI impI insertI1 insertI2)

text \<open>
  Claim C3, as stated: every one of the five sub-scores, coupling included, has the dead
  zone [60, 80]. At coupling 70 (all other sub-scores 70 as well) the code reports high
  coupling as a weak point.
\<close>

theorem assessArchitectureQuality_coupling_counterexample:
  "weakPoints (assessArchitectureQuality
      (constantAnalyzers 70 70 70 70 70) ''/workspace'')
     = [''High coupling - modules are too interdependent'']"
  by (simp add: assessArchitectureQuality_def judge_def constantAnalyzers_def)

text \<open>
  Claim C3, amended. For modularity, cohesion, maintainability and testability a
  sub-score below 60 adds its entry to weakPoints, a sub-score above 80 adds its entry
  to strengths, and a sub-score in [60, 80] adds neither. Coupling is judged the other
  way round (lower is better): above 40 its entry goes to weakPoints, below 20 to
  strengths, and in [20, 40] to neither. The two lists hold no other entries.
\<close>

theorem assessArchitectureQuality_thresholds:
  fixes an :: ArchitectureAnalyzers and ws :: string
  defines "r \<equiv> assessArchitectureQuality an ws"
  shows
  "(''Low modularity - consider breaking down large modules'' \<in> set (weakPoints r)
      \<longleftrightarrow> modularity r < 60)
   \<and> (''Excellent modularity'' \<in> set (strengths r) \<longleftrightarrow> modularity r > 80)
   \<and> (''Low cohesion - modules have too many unrelated responsibilities'' \<in> set (weakPoints r)
      \<longleftrightarrow> cohesion r < 60)
   \<and> (''High cohesion - well-focused modules'' \<in> set (strengths r) \<longleftrightarrow> cohesion r > 80)
   \<and> (''Low maintainability - code is difficult to modify'' \<in> set (weakPoints r)
      \<longleftrightarrow> maintainability r < 60)
   \<and> (''High maintainability'' \<in> set (strengths r) \<longleftrightarrow> maintainability r > 80)
   \<and> (''Low testability - code is difficult to test'' \<in> set (weakPoints r)
      \<longleftrightarrow> testability r < 60)
   \<and> (''High testability'' \<in> set (strengths r) \<longleftrightarrow> testability r > 80)
   \<and> (''High coupling - modules are too interdependent'' \<in> set (weakPoints r)
      \<longleftrightarrow> coupling r > 40)
   \<and> (''Low coupling - good separation of concerns'' \<in> set (strengths r)
      \<longleftrightarrow> coupling r < 20)
   \<and> set (weakPoints r) \<subseteq>
       {''Low modularity - consider breaking down large modules'',
        ''Low cohesion - modules have too many unrelated responsibilities'',
        ''High coupling - modules are too interdependent'',
        ''Low maintainability - code is difficult to modify'',
        ''Low testability - code is difficult to test''}
   \<and> set (strengths r) \<subseteq>
       {''Excellent modularity'', ''High cohesion - well-focused modules'',
        ''Low coupling - good separation of concerns'', ''High maintainability'',
        ''High testability''}"
  unfolding r_def subscores_assessArchitectureQuality
  by (intro conjI weak_entries strength_entries weakPoints_subset strengths_subset)


text \<open>
  Modularity 55 gives exactly the modularity weak point; modularity 70 gives no
  modularity entry in either list, and neither do the boundaries 60 and 80 of the
  other sub-scores.
\<close>

theorem assessArchitectureQuality_thresholds_witness:
  "weakPoints (assessArchitectureQuality
      (constantAnalyzers 55 70 30 60 80) ''/workspace'')
     = [''Low modularity - consider breaking down large modules'']
   \<and> strengths (assessArchitectureQuality
      (constantAnalyzers 55 70 30 60 80) ''/workspace'') = []
   \<and> ''Low modularity - consider breaking down large modules'' \<notin> set (weakPoints
       (assessArchitectureQuality
         (constantAnalyzers 70 60 20 80 90) ''/workspace''))
   \<and> ''Excellent modularity'' \<notin> set (strengths
       (assessArchitectureQuality
         (constantAnalyzers 70 60 20 80 90) ''/workspace''))"
proof -
  let ?weak = "constantAnalyzers 55 70 30 60 80"
  let ?mid = "constantAnalyzers 70 60 20 80 90"
  have run: "weakPoints (assessArchitectureQuality ?weak ''/workspace'')
               = [''Low modularity - consider breaking down large modules'']"
    "strengths (assessArchitectureQuality ?weak ''/workspace'') = []"
    by (simp_all add: assessArchitectureQuality_def judge_def constantAnalyzers_def)
  have m: "modularity (assessArchitectureQuality ?mid ''/workspace'') = 70"
    by (simp add: subscores_assessArchitectureQuality constantAnalyzers_def)
  from assessArchitectureQuality_thresholds [of ?mid "''/workspace''"]
  have "(''Low modularity - consider breaking down large modules''
            \<in> set (weakPoints (assessArchitectureQuality ?mid ''/workspace''))
          \<longleftrightarrow> modularity (assessArchitectureQuality ?mid ''/workspace'') < 60)"
    and "(''Excellent modularity''
            \<in> set (strengths (assessArchitectureQuality ?mid ''/workspace''))
          \<longleftrightarrow> modularity (assessArchitectureQuality ?mid ''/workspace'') > 80)"
    by blast+
  with m have "''Low modularity - consider breaking down large modules''
         \<notin> set (weakPoints (assessArchitectureQuality ?mid ''/workspace''))"
    and "''Excellent modularity''
         \<notin> set (strengths (assessArchitectureQuality ?mid ''/workspace''))"
    by simp_all
  with run show ?thesis
    by blast
qed

section \<open>Composite code quality score\<close>

lemma expoUp_bound: "1 \<le> x \<Longrightarrow> 0 \<le> expoUp x \<and> 2 powi (expoUp x) \<le> x"
proof (induction x rule: expoUp.induct)
  case (1 x)
  show ?case
  proof (cases "x \<ge> 2")
    case True
    then have "1 \<le> x / 2"
      by simp
    with "1.IH" True have ih: "0 \<le> expoUp (x / 2)" "2 powi (expoUp (x / 2)) \<le> x / 2"
      by simp_all
    have "expoUp x = expoUp (x / 2) + 1"
      using True by (simp add: expoUp.simps [of x])
    moreover have "(2::rat) powi (expoUp (x / 2) + 1) = 2 powi (expoUp (x / 2)) * 2"
      by (simp add: power_int_add)
    ultimately show ?thesis
      using ih by simp
  next
    case False
    then have "expoUp x = 0"
      by (simp add: expoUp.simps [of x])
    with "1.prems" show ?thesis
      by simp
  qed
qed

lemma expoDown_bound: "0 < x \<Longrightarrow> x < 1 \<Longrightarrow> 2 powi (expoDown x) \<le> x"
proof (induction x rule: expoDown.induct)
  case (1 x)
  have unfold: "expoDown x = expoDown (x * 2) - 1"
    using "1.prems" by (simp add: expoDown.simps [of x])
  have half: "(2::rat) powi (expoDown (x * 2) - 1) = 2 powi (expoDown (x * 2)) / 2"
    by (simp add: power_int_diff)
  show ?case
  proof (cases "x * 2 < 1")
    case True
    with "1.IH" "1.prems" have "2 powi (expoDown (x * 2)) \<le> x * 2"
      by simp
    then show ?thesis
      by (simp add: unfold half)
  next
    case False
    then have "expoDown (x * 2) = 0"
      by (simp add: expoDown.simps [of "x * 2"])
    with False show ?thesis
      by (simp add: unfold)
  qed
qed

lemma binaryExponent_bound: "0 < x \<Longrightarrow> 2 powi (binaryExponent x) \<le> x"
  using expoUp_bound [of x] expoDown_bound [of x]
  by (cases "x \<ge> 1") (simp_all add: binaryExponent_def)

lemma roundHalfEven_error: "\<bar>of_int (roundHalfEven r) - r\<bar> \<le> 1 / 2"
proof -
  have lo: "of_int \<lfloor>r\<rfloor> \<le> r" and hi: "r < of_int \<lfloor>r\<rfloor> + 1"
    by linarith+
  show ?thesis
  proof (cases "r - of_int \<lfloor>r\<rfloor> < 1 / 2")
    case True
    with lo show ?thesis
      by (simp add: roundHalfEven_def Let_def abs_le_iff)
  next
    case False
    note ge = this
    show ?thesis
    proof (cases "r - of_int \<lfloor>r\<rfloor> > 1 / 2")
      case True
      with ge hi show ?thesis
        by (simp add: roundHalfEven_def Let_def abs_le_iff)
    next
      case False
      with ge have "r - of_int \<lfloor>r\<rfloor> = 1 / 2"
        by simp
      then have "r = of_int \<lfloor>r\<rfloor> + 1 / 2"
        by simp
      then show ?thesis
        using ge False by (simp add: roundHalfEven_def Let_def abs_le_iff)
    qed
  qed
qed

lemma roundToDouble_error:
  "\<bar>roundToDouble x - x\<bar> \<le> \<bar>x\<bar> / 2 ^ 53 + 2 powi (- 1075)"
proof (cases "x = 0")
  case True
  then show ?thesis
    by (simp add: roundToDouble_def)
next
  case False
  define e where "e = max (binaryExponent \<bar>x\<bar>) (- 1022)"
  define ulp :: rat where "ulp = 2 powi (e - 52)"
  have ulp_pos: "0 < ulp"
    by (simp add: ulp_def)
  have r: "roundToDouble x = of_int (roundHalfEven (x / ulp)) * ulp"
    using False by (simp add: roundToDouble_def Let_def e_def ulp_def)
  have "of_int (roundHalfEven (x / ulp)) * ulp - x =
          (of_int (roundHalfEven (x / ulp)) - x / ulp) * ulp"
    using ulp_pos by (simp add: left_diff_distrib)
  then have "\<bar>of_int (roundHalfEven (x / ulp)) * ulp - x\<bar> =
          \<bar>of_int (roundHalfEven (x / ulp)) - x / ulp\<bar> * ulp"
    using ulp_pos by (simp only: abs_mult abs_of_pos)
  also have "\<dots> \<le> (1 / 2) * ulp"
    using roundHalfEven_error [of "x / ulp"] ulp_pos by (intro mult_right_mono) simp_all
  finally have err: "\<bar>roundToDouble x - x\<bar> \<le> ulp / 2"
    by (simp add: r)
  have half: "ulp / 2 = 2 powi e / 2 ^ 53"
    by (simp add: ulp_def power_int_diff)
  show ?thesis
  proof (cases "binaryExponent \<bar>x\<bar> \<ge> - 1022")
    case True
    then have "e = binaryExponent \<bar>x\<bar>"
      by (simp add: e_def)
    moreover have "2 powi (binaryExponent \<bar>x\<bar>) \<le> \<bar>x\<bar>"
      using False by (intro binaryExponent_bound) simp
    ultimately have "ulp / 2 \<le> \<bar>x\<bar> / 2 ^ 53"
      by (simp add: half divide_right_mono)
    moreover have "(0::rat) \<le> 2 powi (- 1075)"
      by simp
    ultimately show ?thesis
      using err by linarith
  next
    case False
    then have "e = - 1022"
      by (simp add: e_def)
    then have "ulp / 2 = 2 powi (- 1075)"
      by (simp add: ulp_def power_int_diff)
    moreover have "0 \<le> \<bar>x\<bar> / 2 ^ 53"
      by simp
    ultimately show ?thesis
      using err by linarith
  qed
qed


lemma expoUp_step: "x \<ge> 2 \<Longrightarrow> expoUp x = expoUp (x / 2) + 1"
  by (simp add: expoUp.simps [of x])

lemma expoUp_stop: "x < 2 \<Longrightarrow> expoUp x = 0"
  by (simp add: expoUp.simps [of x])

lemma expoDown_step: "0 < x \<Longrightarrow> x < 1 \<Longrightarrow> expoDown x = expoDown (x * 2) - 1"
  by (simp add: expoDown.simps [of x])

lemma expoDown_stop: "x \<ge> 1 \<Longrightarrow> expoDown x = 0"
  by (simp add: expoDown.simps [of x])

lemma floor_rat_numeral_divide:
  "\<lfloor>(numeral a :: rat) / numeral b\<rfloor> = numeral a div numeral b"
  by (metis floor_divide_of_int_eq of_int_numeral)

lemmas double_eval = roundToDouble_def binaryExponent_def roundHalfEven_def Let_def
  expoUp_step expoUp_stop expoDown_step expoDown_stop power_int_minus
  floor_rat_numeral_divide

lemma eta_small: "(2::rat) powi (- 1075) \<le> 1 / 10 ^ 20"
  by (simp add: power_int_minus field_simps)

lemma roundToDouble_error_bounded:
  assumes "\<bar>x\<bar> \<le> M"
  shows "\<bar>roundToDouble x - x\<bar> \<le> M / 2 ^ 53 + 1 / 10 ^ 20"
proof -
  have "\<bar>x\<bar> / 2 ^ 53 \<le> M / 2 ^ 53"
    using assms by (simp add: divide_right_mono)
  with roundToDouble_error [of x] eta_small show ?thesis
    by linarith
qed

lemma jsMul_error:
  assumes "0 \<le> x" "x \<le> 100" "0 \<le> k" "k \<le> K"
  shows "\<bar>jsMul x k - x * k\<bar> \<le> 100 * K / 2 ^ 53 + 1 / 10 ^ 20"
proof -
  have "x * k \<le> 100 * K"
    using assms by (intro mult_mono) simp_all
  moreover have "0 \<le> x * k"
    using assms by simp
  ultimately have "\<bar>x * k\<bar> \<le> 100 * K"
    by simp
  then show ?thesis
    unfolding jsMul_def by (rule roundToDouble_error_bounded)
qed

lemma jsAdd_error:
  assumes "\<bar>a - A\<bar> \<le> Ea" "\<bar>b - B\<bar> \<le> Eb" "\<bar>A + B\<bar> \<le> M"
  shows "\<bar>jsAdd a b - (A + B)\<bar> \<le> (M + Ea + Eb) / 2 ^ 53 + 1 / 10 ^ 20 + Ea + Eb"
proof -
  have "\<bar>a + b\<bar> \<le> M + Ea + Eb"
    using assms by linarith
  then have "\<bar>roundToDouble (a + b) - (a + b)\<bar> \<le> (M + Ea + Eb) / 2 ^ 53 + 1 / 10 ^ 20"
    by (rule roundToDouble_error_bounded)
  with assms show ?thesis
    unfolding jsAdd_def by linarith
qed

lemma k25n: "roundToDouble (1 / 4) = 1 / 4"
  by (simp add: double_eval)

lemma k20n: "roundToDouble (1 / 5) = 3602879701896397 / 18014398509481984"
  by (simp add: double_eval)

lemma k15n: "roundToDouble (3 / 20) = 5404319552844595 / 36028797018963968"
  by (simp add: double_eval)

lemma quarter_term:
  assumes "0 \<le> x" "x \<le> 100"
  shows "\<bar>jsMul x (roundToDouble (25 / 100)) - 25 / 100 * x\<bar> \<le> 4 / 10 ^ 15"
proof -
  have "\<bar>jsMul x (1 / 4) - x * (1 / 4)\<bar> \<le> 100 * (1 / 4) / 2 ^ 53 + 1 / 10 ^ 20"
    using assms by (intro jsMul_error) simp_all
  then show ?thesis
    by (simp add: k25n)
qed

lemma fifth_term:
  assumes "0 \<le> x" "x \<le> 100"
  shows "\<bar>jsMul x (roundToDouble (2 / 10)) - 20 / 100 * x\<bar> \<le> 4 / 10 ^ 15"
proof -
  let ?k = "3602879701896397 / 18014398509481984 :: rat"
  have "\<bar>jsMul x ?k - x * ?k\<bar> \<le> 100 * ?k / 2 ^ 53 + 1 / 10 ^ 20"
    using assms by (intro jsMul_error) simp_all
  moreover have "\<bar>x * ?k - 20 / 100 * x\<bar> \<le> 100 * (?k - 20 / 100)"
    using assms by simp
  ultimately have "\<bar>jsMul x ?k - 20 / 100 * x\<bar>
      \<le> 100 * ?k / 2 ^ 53 + 1 / 10 ^ 20 + 100 * (?k - 20 / 100)"
    by linarith
  then show ?thesis
    by (simp add: k20n)
qed

lemma fifteen_term:
  assumes "0 \<le> x" "x \<le> 100"
  shows "\<bar>jsMul x (roundToDouble (15 / 100)) - 15 / 100 * x\<bar> \<le> 4 / 10 ^ 15"
proof -
  let ?k = "5404319552844595 / 36028797018963968 :: rat"
  have "\<bar>jsMul x ?k - x * ?k\<bar> \<le> 100 * ?k / 2 ^ 53 + 1 / 10 ^ 20"
    using assms by (intro jsMul_error) simp_all
  moreover have "\<bar>x * ?k - 15 / 100 * x\<bar> \<le> 100 * (15 / 100 - ?k)"
    using assms by simp
  ultimately have "\<bar>jsMul x ?k - 15 / 100 * x\<bar>
      \<le> 100 * ?k / 2 ^ 53 + 1 / 10 ^ 20 + 100 * (15 / 100 - ?k)"
    by linarith
  then show ?thesis
    by (simp add: k15n)
qed


lemma getCodeQualityScore_drift:
  assumes c: "0 \<le> getComplexityScore q path" "getComplexityScore q path \<le> 100"
    and d: "0 \<le> getDuplicationScore q path" "getDuplicationScore q path \<le> 100"
    and v: "0 \<le> getCoverageScore q path" "getCoverageScore q path \<le> 100"
    and m: "0 \<le> getDocumentationScore q path" "getDocumentationScore q path \<le> 100"
    and s: "0 \<le> getStyleComplianceScore q path" "getStyleComplianceScore q path \<le> 100"
  shows "\<bar>getCodeQualityScore q path -
           (25 / 100 * getComplexityScore q path + 20 / 100 * getDuplicationScore q path +
            25 / 100 * getCoverageScore q path + 15 / 100 * getDocumentationScore q path +
            15 / 100 * getStyleComplianceScore q path)\<bar> \<le> 1 / 10 ^ 13"
proof -
  let ?c = "getComplexityScore q path" and ?d = "getDuplicationScore q path"
  let ?v = "getCoverageScore q path" and ?m = "getDocumentationScore q path"
  let ?s = "getStyleComplianceScore q path"
  let ?p1 = "jsMul ?c (roundToDouble (25 / 100))"
  let ?p2 = "jsMul ?d (roundToDouble (2 / 10))"
  let ?p3 = "jsMul ?v (roundToDouble (25 / 100))"
  let ?p4 = "jsMul ?m (roundToDouble (15 / 100))"
  let ?p5 = "jsMul ?s (roundToDouble (15 / 100))"
  have p1: "\<bar>?p1 - 25 / 100 * ?c\<bar> \<le> 4 / 10 ^ 15"
    using c by (rule quarter_term)
  have p2: "\<bar>?p2 - 20 / 100 * ?d\<bar> \<le> 4 / 10 ^ 15"
    using d by (rule fifth_term)
  have p3: "\<bar>?p3 - 25 / 100 * ?v\<bar> \<le> 4 / 10 ^ 15"
    using v by (rule quarter_term)
  have p4: "\<bar>?p4 - 15 / 100 * ?m\<bar> \<le> 4 / 10 ^ 15"
    using m by (rule fifteen_term)
  have p5: "\<bar>?p5 - 15 / 100 * ?s\<bar> \<le> 4 / 10 ^ 15"
    using s by (rule fifteen_term)
  have b1: "\<bar>25 / 100 * ?c + 20 / 100 * ?d\<bar> \<le> 45"
    using c d by linarith
  have s1: "\<bar>jsAdd ?p1 ?p2 - (25 / 100 * ?c + 20 / 100 * ?d)\<bar> \<le> 14 / 10 ^ 15"
    using jsAdd_error [OF p1 p2 b1] by simp
  have b2: "\<bar>(25 / 100 * ?c + 20 / 100 * ?d) + 25 / 100 * ?v\<bar> \<le> 70"
    using c d v by linarith
  have s2: "\<bar>jsAdd (jsAdd ?p1 ?p2) ?p3 -
              ((25 / 100 * ?c + 20 / 100 * ?d) + 25 / 100 * ?v)\<bar> \<le> 27 / 10 ^ 15"
    using jsAdd_error [OF s1 p3 b2] by simp
  have b3: "\<bar>((25 / 100 * ?c + 20 / 100 * ?d) + 25 / 100 * ?v) + 15 / 100 * ?m\<bar> \<le> 85"
    using c d v m by linarith
  have s3: "\<bar>jsAdd (jsAdd (jsAdd ?p1 ?p2) ?p3) ?p4 -
              (((25 / 100 * ?c + 20 / 100 * ?d) + 25 / 100 * ?v) + 15 / 100 * ?m)\<bar>
              \<le> 41 / 10 ^ 15"
    using jsAdd_error [OF s2 p4 b3] by simp
  have b4: "\<bar>(((25 / 100 * ?c + 20 / 100 * ?d) + 25 / 100 * ?v) + 15 / 100 * ?m)
              + 15 / 100 * ?s\<bar> \<le> 100"
    using c d v m s by linarith
  have s4: "\<bar>jsAdd (jsAdd (jsAdd (jsAdd ?p1 ?p2) ?p3) ?p4) ?p5 -
              ((((25 / 100 * ?c + 20 / 100 * ?d) + 25 / 100 * ?v) + 15 / 100 * ?m)
                + 15 / 100 * ?s)\<bar> \<le> 57 / 10 ^ 15"
    using jsAdd_error [OF s3 p5 b4] by simp
  have "getCodeQualityScore q path = jsAdd (jsAdd (jsAdd (jsAdd ?p1 ?p2) ?p3) ?p4) ?p5"
    by (simp add: getCodeQualityScore_def Let_def)
  with s4 show ?thesis
    by simp
qed

lemma score_of_source_scorers: "getCodeQualityScore sourceQualityScorers ''/workspace'' = 299 / 4"
  by (simp add: getCodeQualityScore_def sourceQualityScorers_def jsMul_def jsAdd_def double_eval)

lemma score_of_thirteens: "getCodeQualityScore (constantScorers 13 13 13 13 13) ''/workspace''
    = 7318349394477055 / 562949953421312"
  by (simp add: getCodeQualityScore_def constantScorers_def jsMul_def jsAdd_def double_eval)

text \<open>
  Claim C6. For sub-scores in [0, 100], getCodeQualityScore returns the weighted sum
  0.25 complexity + 0.20 duplication + 0.25 coverage + 0.15 documentation + 0.15 style,
  whose weights add up to 1, with no drift beyond floating-point tolerance: the double
  the code computes differs from the exact weighted sum by at most 10^-13 (the rounding
  errors of the two inexact literals, of the five products and of the four sums add up
  to less than 6 * 10^-14 on this range).
\<close>

theorem getCodeQualityScore_within_tolerance:
  assumes "0 \<le> getComplexityScore q path" "getComplexityScore q path \<le> 100"
    and "0 \<le> getDuplicationScore q path" "getDuplicationScore q path \<le> 100"
    and "0 \<le> getCoverageScore q path" "getCoverageScore q path \<le> 100"
    and "0 \<le> getDocumentationScore q path" "getDocumentationScore q path \<le> 100"
    and "0 \<le> getStyleComplianceScore q path" "getStyleComplianceScore q path \<le> 100"
  shows
  "\<bar>getCodeQualityScore q path -
      (25 / 100 * getComplexityScore q path + 20 / 100 * getDuplicationScore q path +
       25 / 100 * getCoverageScore q path + 15 / 100 * getDocumentationScore q path +
       15 / 100 * getStyleComplianceScore q path)\<bar> \<le> 1 / 10 ^ 13
   \<and> (25 / 100 + 20 / 100 + 25 / 100 + 15 / 100 + 15 / 100 = (1::rat))"
  using getCodeQualityScore_drift [OF assms] by simp

text \<open>
  The scorers of the source (75, 80, 70, 65, 85) give 74.75 without any rounding. Five
  sub-scores 13 give 13 - 2^-49 (the double printed as 12.999999999999998): not the
  exact sum, and within the tolerance.
\<close>

theorem getCodeQualityScore_within_tolerance_witness:
  "getCodeQualityScore sourceQualityScorers ''/workspace'' = 299 / 4
   \<and> getCodeQualityScore (constantScorers 13 13 13 13 13) ''/workspace''
       = 7318349394477055 / 562949953421312
   \<and> (13::rat) - 7318349394477055 / 562949953421312 = 1 / 2 ^ 49
   \<and> \<bar>getCodeQualityScore (constantScorers 13 13 13 13 13) ''/workspace'' - 13\<bar>
       \<le> 1 / 10 ^ 13"
proof -
  have "\<bar>getCodeQualityScore (constantScorers 13 13 13 13 13) ''/workspace'' -
      (25 / 100 * 13 + 20 / 100 * 13 + 25 / 100 * 13 + 15 / 100 * 13 + 15 / 100 * 13)\<bar>
      \<le> 1 / 10 ^ 13"
    using getCodeQualityScore_within_tolerance
      [of "constantScorers 13 13 13 13 13" "''/workspace''"]
    by (simp add: constantScorers_def)
  then have "\<bar>getCodeQualityScore (constantScorers 13 13 13 13 13) ''/workspace'' - 13\<bar>
      \<le> 1 / 10 ^ 13"
    by simp
  moreover have "(13::rat) - 7318349394477055 / 562949953421312 = 1 / 2 ^ 49"
    by simp
  ultimately show ?thesis
    using score_of_source_scorers score_of_thirteens by simp
qed

section \<open>Retention of the code-evolution history\<close>

lemma findIndex_takeWhile:
  "findIndex p xs =
     (if \<exists>x\<in>set xs. p x then int (length (takeWhile (\<lambda>x. \<not> p x) xs)) else -1)"
  by (induction xs) (auto simp: Let_def)

lemma pruneOldMetrics_dropWhile:
  "pruneOldMetrics now metrics =
     (if \<exists>m\<in>set metrics. ce_timestamp m \<ge> now - HISTORY_RETENTION_DAYS * 24 * 60 * 60 * 1000
      then dropWhile
             (\<lambda>m. \<not> ce_timestamp m \<ge> now - HISTORY_RETENTION_DAYS * 24 * 60 * 60 * 1000) metrics
      else metrics)"
  by (auto simp: pruneOldMetrics_def Let_def findIndex_takeWhile dropWhile_eq_drop)

lemma dropWhile_sorted_filter:
  "sorted (map f xs) \<Longrightarrow> dropWhile (\<lambda>x. \<not> f x \<ge> (c::int)) xs = filter (\<lambda>x. f x \<ge> c) xs"
proof (induction xs)
  case Nil
  then show ?case by simp
next
  case (Cons x xs)
  show ?case
  proof (cases "f x \<ge> c")
    case True
    with Cons.prems have "\<forall>y\<in>set xs. f y \<ge> c"
      by auto
    then have "filter (\<lambda>x. f x \<ge> c) xs = xs"
      by simp
    with True show ?thesis by simp
  next
    case False
    with Cons show ?thesis by simp
  qed
qed

lemma pruneOldMetrics_sorted:
  assumes "sorted (map ce_timestamp metrics)"
    and "\<exists>m\<in>set metrics. ce_timestamp m \<ge> now - HISTORY_RETENTION_DAYS * 24 * 60 * 60 * 1000"
  shows "pruneOldMetrics now metrics =
           filter (\<lambda>m. ce_timestamp m \<ge> now - HISTORY_RETENTION_DAYS * 24 * 60 * 60 * 1000)
             metrics"
  using assms by (simp add: pruneOldMetrics_dropWhile dropWhile_sorted_filter)

lemma fst_trackCodeEvolution:
  "fst (trackCodeEvolution ws nowCapture nowPrune s) =
     pruneOldMetrics nowPrune (getOrLoadMetrics s ws @ [captureCurrentMetrics nowCapture ws])"
  by (simp add: trackCodeEvolution_def Let_def)

lemma stored_trackCodeEvolution:
  "metricsHistory (snd (trackCodeEvolution ws nowCapture nowPrune s)) ws =
     Some (fst (trackCodeEvolution ws nowCapture nowPrune s))"
  by (simp add: trackCodeEvolution_def Let_def)

lemma pruneOldMetrics_nothing_in_window:
  "\<forall>m\<in>set metrics. ce_timestamp m < now - HISTORY_RETENTION_DAYS * 24 * 60 * 60 * 1000 \<Longrightarrow>
   pruneOldMetrics now metrics = metrics"
  by (auto simp: pruneOldMetrics_dropWhile)

lemma pruneOldMetrics_keeps_order:
  "sorted (map ce_timestamp metrics) \<Longrightarrow> sorted (map ce_timestamp (pruneOldMetrics now metrics))"
  by (simp add: pruneOldMetrics_def Let_def drop_map [symmetric] sorted_wrt_drop)

text \<open>
  Where the code prunes as intended: on a stored history in chronological order, with
  the new snapshot itself inside the window, exactly the snapshots inside the window
  remain. When moreover the clock has not gone back since the last stored snapshot, the
  history is in chronological order again, so that under a clock that never goes back
  every history the service builds from the empty one is pruned as intended.
\<close>

lemma trackCodeEvolution_retention_ordered:
  assumes ordered: "sorted (map ce_timestamp (getOrLoadMetrics s ws))"
    and fresh: "nowPrune - HISTORY_RETENTION_DAYS * 24 * 60 * 60 * 1000 \<le> nowCapture"
  shows "fst (trackCodeEvolution ws nowCapture nowPrune s) =
       filter (\<lambda>m. ce_timestamp m \<ge> nowPrune - HISTORY_RETENTION_DAYS * 24 * 60 * 60 * 1000)
         (getOrLoadMetrics s ws @ [captureCurrentMetrics nowCapture ws])"
    and "\<forall>m\<in>set (fst (trackCodeEvolution ws nowCapture nowPrune s)).
       ce_timestamp m \<ge> nowPrune - HISTORY_RETENTION_DAYS * 24 * 60 * 60 * 1000"
proof -
  let ?cur = "captureCurrentMetrics nowCapture ws"
  let ?pushed = "getOrLoadMetrics s ws @ [?cur]"
  let ?cutoff = "nowPrune - HISTORY_RETENTION_DAYS * 24 * 60 * 60 * 1000"
  have stamp: "ce_timestamp ?cur = nowCapture"
    by (simp add: captureCurrentMetrics_def)
  with fresh have cur: "ce_timestamp ?cur \<ge> ?cutoff"
    by simp
  then have "pruneOldMetrics nowPrune ?pushed =
      dropWhile (\<lambda>m. \<not> ce_timestamp m \<ge> ?cutoff) ?pushed"
    by (auto simp: pruneOldMetrics_dropWhile)
  also have "\<dots> = dropWhile (\<lambda>m. \<not> ce_timestamp m \<ge> ?cutoff) (getOrLoadMetrics s ws) @ [?cur]"
    using cur by (simp add: dropWhile_append3)
  also have "\<dots> = filter (\<lambda>m. ce_timestamp m \<ge> ?cutoff) (getOrLoadMetrics s ws) @ [?cur]"
    using ordered by (simp add: dropWhile_sorted_filter)
  also have "\<dots> = filter (\<lambda>m. ce_timestamp m \<ge> ?cutoff) ?pushed"
    using cur by simp
  finally show result: "fst (trackCodeEvolution ws nowCapture nowPrune s) =
      filter (\<lambda>m. ce_timestamp m \<ge> ?cutoff) ?pushed"
    by (simp only: fst_trackCodeEvolution)
  show "\<forall>m\<in>set (fst (trackCodeEvolution ws nowCapture nowPrune s)). ce_timestamp m \<ge> ?cutoff"
    by (simp only: result) simp
qed

lemma trackCodeEvolution_keeps_order:
  assumes "sorted (map ce_timestamp (getOrLoadMetrics s ws) @ [nowCapture])"
  shows "sorted (map ce_timestamp (fst (trackCodeEvolution ws nowCapture nowPrune s)))"
proof -
  have "sorted (map ce_timestamp
      (getOrLoadMetrics s ws @ [captureCurrentMetrics nowCapture ws]))"
    using assms by (simp add: captureCurrentMetrics_def)
  then show ?thesis
    unfolding fst_trackCodeEvolution by (rule pruneOldMetrics_keeps_order)
qed

lemma trackCodeEvolution_ordered_example:
  "fst (trackCodeEvolution ''/workspace'' 1700000000000 1700000000000 orderedHistoryState)
     = [captureCurrentMetrics 1699913600000 ''/workspace'',
        captureCurrentMetrics 1700000000000 ''/workspace'']"
  by (simp add: trackCodeEvolution_def getOrLoadMetrics_def pruneOldMetrics_def Let_def
        captureCurrentMetrics_def HISTORY_RETENTION_DAYS_def orderedHistoryState_def)

lemma unordered_history_reachable:
  "snd (trackCodeEvolution ''/workspace'' 1691360000000 1691360000000
     (snd (trackCodeEvolution ''/workspace'' 1699913600000 1699913600000 initialCodeState)))
   = unorderedHistoryState"
  by (simp add: trackCodeEvolution_def getOrLoadMetrics_def pruneOldMetrics_def Let_def
        captureCurrentMetrics_def HISTORY_RETENTION_DAYS_def initialCodeState_def
        loadHistoricalMetrics_def unorderedHistoryState_def)

text \<open>
  Claim C4. After trackCodeEvolution returns, no snapshot of the returned history is
  older than the 90-day retention window. The code does not achieve this on every
  history: pruneOldMetrics removes only the entries in front of the first one inside
  the window. Three calls on the empty service, with the wall clock set back between
  the first and the second (readings 1699913600000, 1691360000000, 1700000000000):
  the second call leaves a one-day-old snapshot followed by a 100-day-old one, and at
  the third call findIndex returns 0, nothing is spliced off, and the 100-day-old
  snapshot is returned although it lies before the cutoff.
\<close>

theorem trackCodeEvolution_stale_snapshot_retained:
  "snd (trackCodeEvolution ''/workspace'' 1691360000000 1691360000000
     (snd (trackCodeEvolution ''/workspace'' 1699913600000 1699913600000 initialCodeState)))
     = unorderedHistoryState
   \<and> fst (trackCodeEvolution ''/workspace'' 1700000000000 1700000000000
       unorderedHistoryState)
     = [captureCurrentMetrics 1699913600000 ''/workspace'',
        captureCurrentMetrics 1691360000000 ''/workspace'',
        captureCurrentMetrics 1700000000000 ''/workspace'']
   \<and> ce_timestamp (captureCurrentMetrics 1691360000000 ''/workspace'')
       < 1700000000000 - HISTORY_RETENTION_DAYS * 24 * 60 * 60 * 1000"
proof -
  have "fst (trackCodeEvolution ''/workspace'' 1700000000000 1700000000000
       unorderedHistoryState)
     = [captureCurrentMetrics 1699913600000 ''/workspace'',
        captureCurrentMetrics 1691360000000 ''/workspace'',
        captureCurrentMetrics 1700000000000 ''/workspace'']"
    by (simp add: trackCodeEvolution_def getOrLoadMetrics_def pruneOldMetrics_def Let_def
          captureCurrentMetrics_def HISTORY_RETENTION_DAYS_def unorderedHistoryState_def)
  moreover have "ce_timestamp (captureCurrentMetrics 1691360000000 ''/workspace'')
       < 1700000000000 - HISTORY_RETENTION_DAYS * 24 * 60 * 60 * 1000"
    by (simp add: captureCurrentMetrics_def HISTORY_RETENTION_DAYS_def)
  ultimately show ?thesis
    using unordered_history_reachable by simp
qed

section \<open>Insight generation\<close>

lemma digits_numeral:
  "digits (numeral n) =
     (if numeral n < (10::nat) then [''0123456789'' ! numeral n]
      else digits (numeral n div 10) @ [''0123456789'' ! (numeral n mod 10)])"
  by (rule digits.simps)

lemma digits_0: "digits 0 = ''0''"
  by (simp add: digits.simps [of 0])

lemma digits_1: "digits (Suc 0) = ''1''"
  by (simp add: digits.simps [of "Suc 0"])

lemmas render = numberToString_def digits_numeral digits_0 digits_1

lemma fst_andThen: "fst (andThen f g k) = fst (f k) @ fst (g (snd (f k)))"
  by (simp add: andThen_def split: prod.splits)

lemma snd_andThen: "snd (andThen f g k) = snd (g (snd (f k)))"
  by (simp add: andThen_def split: prod.splits)

lemmas generators = generatePerformanceInsights_def
     generateQualityInsights_def degradationInsight_def bottleneckInsight_def highDebtInsight_def
     criticalIssueInsight_def generateProductivityInsights_def generateSecurityInsights_def

lemma insights_tieEnv: "fst (generateInsights tieEnv s) =
   [\<lparr>insightId = ''quality-1700000000000-2'', category = Quality, priority = Critical,
      impact = 90, confidence = 0.95,
      recommendations = [''Fix critical issue in src/auth/token-handler.ts''],
      timestamp = 1700000000001\<rparr>,
    \<lparr>insightId = ''security-1700000000002-1'', category = Security, priority = Critical,
      impact = 95, confidence = 0.9, recommendations = [], timestamp = 1700000000003\<rparr>]"
  by (simp add: generateInsights_def fst_andThen snd_andThen generators tieEnv_def Let_def render)




section \<open>Ranking of insights\<close>






section \<open>Acknowledgement and personalised insights\<close>

text \<open>
  Claim C9. acknowledgeInsight is idempotent: a second call with the same id leaves the
  state, and so the acknowledged set and its size, as the first call left them, and the
  id is a member of the acknowledged set after the call.
\<close>

theorem acknowledgeInsight_idempotent:
  "acknowledgeInsight i (acknowledgeInsight i s) = acknowledgeInsight i s
   \<and> acknowledgedInsights (acknowledgeInsight i (acknowledgeInsight i s)) =
       acknowledgedInsights (acknowledgeInsight i s)
   \<and> fcard (acknowledgedInsights (acknowledgeInsight i (acknowledgeInsight i s))) =
       fcard (acknowledgedInsights (acknowledgeInsight i s))
   \<and> i |\<in>| acknowledgedInsights (acknowledgeInsight i s)
   \<and> acknowledgedInsights (acknowledgeInsight i s) = finsert i (acknowledgedInsights s)"
  by (simp add: acknowledgeInsight_def)

theorem acknowledgeInsight_idempotent_witness:
  "acknowledgedInsights (acknowledgeInsight ''perf-1700000000000-1''
      (acknowledgeInsight ''perf-1700000000000-1'' initialInsightState))
     = {|''perf-1700000000000-1''|}
   \<and> fcard (acknowledgedInsights (acknowledgeInsight ''perf-1700000000000-1''
      (acknowledgeInsight ''perf-1700000000000-1'' initialInsightState))) = 1"
  using acknowledgeInsight_idempotent [of "''perf-1700000000000-1''" initialInsightState]
  by (simp add: acknowledgeInsight_def initialInsightState_def fcard_finsert_if)

text \<open>
  Claim C10. getPersonalizedInsights does not depend on its userId argument: from the
  same state, with the same collaborator responses and clock readings, any two user ids
  get the same insights (and leave the same state).
\<close>

theorem getPersonalizedInsights_ignores_user:
  "getPersonalizedInsights u1 env s = getPersonalizedInsights u2 env s"
  by (simp add: getPersonalizedInsights_def)

section \<open>Insight identifiers\<close>

lemma tag_degradation:
  "map (\<lambda>i. (take 2 (insightId i), last (insightId i))) (fst (degradationInsight env k)) =
     (if length (fst (degradationInsight env k)) > 0 then [(''pe'', CHR ''1'')] else [])"
  by (simp add: degradationInsight_def Let_def)

lemma tag_bottleneck:
  "map (\<lambda>i. (take 2 (insightId i), last (insightId i))) (fst (bottleneckInsight env k)) =
     (if length (fst (bottleneckInsight env k)) > 0 then [(''pe'', CHR ''2'')] else [])"
  by (simp add: bottleneckInsight_def Let_def)

lemma tag_highDebt:
  "map (\<lambda>i. (take 2 (insightId i), last (insightId i))) (fst (highDebtInsight env k)) =
     (if length (fst (highDebtInsight env k)) > 0 then [(''qu'', CHR ''1'')] else [])"
  by (simp add: highDebtInsight_def Let_def)

lemma tag_criticalIssue:
  "map (\<lambda>i. (take 2 (insightId i), last (insightId i))) (fst (criticalIssueInsight env k)) =
     (if length (fst (criticalIssueInsight env k)) > 0 then [(''qu'', CHR ''2'')] else [])"
  by (simp add: criticalIssueInsight_def Let_def)

lemma tag_productivity:
  "map (\<lambda>i. (take 2 (insightId i), last (insightId i)))
       (fst (generateProductivityInsights env k)) =
     (if length (fst (generateProductivityInsights env k)) > 0 then [(''pr'', CHR ''1'')] else [])"
  by (simp add: generateProductivityInsights_def Let_def)

lemma tag_security:
  "map (\<lambda>i. (take 2 (insightId i), last (insightId i))) (fst (generateSecurityInsights env k)) =
     (if length (fst (generateSecurityInsights env k)) > 0 then [(''se'', CHR ''1'')] else [])"
  by (simp add: generateSecurityInsights_def Let_def)

lemma distinct_optional_tags:
  "distinct ((if b1 then [(''pe'', CHR ''1'')] else []) @ (if b2 then [(''pe'', CHR ''2'')] else []) @
     (if b3 then [(''qu'', CHR ''1'')] else []) @ (if b4 then [(''qu'', CHR ''2'')] else []) @
     (if b5 then [(''pr'', CHR ''1'')] else []) @ (if b6 then [(''se'', CHR ''1'')] else []))"
  by simp

lemma insights_generateInsights:
  "\<exists>k1 k2 k3 k4 k5. fst (generateInsights env s) =
     fst (degradationInsight env 0) @ fst (bottleneckInsight env k1) @
     fst (highDebtInsight env k2) @ fst (criticalIssueInsight env k3) @
     fst (generateProductivityInsights env k4) @ fst (generateSecurityInsights env k5)"
  by (simp add: generateInsights_def generatePerformanceInsights_def
        generateQualityInsights_def fst_andThen snd_andThen Let_def) blast

lemma distinct_ids_generateInsights:
  "distinct (map insightId (fst (generateInsights env s)))"
proof -
  obtain k1 k2 k3 k4 k5 where g: "fst (generateInsights env s) =
     fst (degradationInsight env 0) @ fst (bottleneckInsight env k1) @
     fst (highDebtInsight env k2) @ fst (criticalIssueInsight env k3) @
     fst (generateProductivityInsights env k4) @ fst (generateSecurityInsights env k5)"
    using insights_generateInsights by blast
  have "distinct (map (\<lambda>i. (take 2 (insightId i), last (insightId i)))
          (fst (generateInsights env s)))"
    unfolding g map_append tag_degradation tag_bottleneck tag_highDebt tag_criticalIssue
      tag_productivity tag_security
    by (rule distinct_optional_tags)
  then have "distinct (map (\<lambda>x. (take 2 x, last x)) (map insightId (fst (generateInsights env s))))"
    by (simp add: comp_def)
  then show ?thesis
    by (simp only: distinct_map)
qed

lemma hasIdShapeI:
  "timestamp i = dateNow env (k + 1) \<Longrightarrow>
   insightId i = categoryPrefix (category i) @ ''-'' @ numberToString (dateNow env k) @ d \<Longrightarrow>
   d = ''-1'' \<or> d = ''-2'' \<Longrightarrow> \<exists>k. hasIdShape env k i"
  unfolding hasIdShape_def by blast

lemma wf_degradation: "i \<in> set (fst (degradationInsight env k)) \<Longrightarrow> (\<exists>k. hasIdShape env k i)"
  by (rule hasIdShapeI [where k = k and d = "''-1''"])
     (simp_all add: degradationInsight_def Let_def categoryPrefix_def split: if_splits)

lemma wf_bottleneck: "i \<in> set (fst (bottleneckInsight env k)) \<Longrightarrow> (\<exists>k. hasIdShape env k i)"
  by (rule hasIdShapeI [where k = k and d = "''-2''"])
     (simp_all add: bottleneckInsight_def Let_def categoryPrefix_def split: if_splits)

lemma wf_highDebt: "i \<in> set (fst (highDebtInsight env k)) \<Longrightarrow> (\<exists>k. hasIdShape env k i)"
  by (rule hasIdShapeI [where k = k and d = "''-1''"])
     (simp_all add: highDebtInsight_def Let_def categoryPrefix_def split: if_splits)

lemma wf_criticalIssue: "i \<in> set (fst (criticalIssueInsight env k)) \<Longrightarrow> (\<exists>k. hasIdShape env k i)"
  by (rule hasIdShapeI [where k = k and d = "''-2''"])
     (simp_all add: criticalIssueInsight_def Let_def categoryPrefix_def split: if_splits)

lemma wf_productivity:
  "i \<in> set (fst (generateProductivityInsights env k)) \<Longrightarrow> (\<exists>k. hasIdShape env k i)"
  by (rule hasIdShapeI [where k = k and d = "''-1''"])
     (simp_all add: generateProductivityInsights_def Let_def categoryPrefix_def split: if_splits)

lemma wf_security: "i \<in> set (fst (generateSecurityInsights env k)) \<Longrightarrow> (\<exists>k. hasIdShape env k i)"
  by (rule hasIdShapeI [where k = k and d = "''-1''"])
     (simp_all add: generateSecurityInsights_def Let_def categoryPrefix_def split: if_splits)

lemma wf_generateInsights:
  assumes "i \<in> set (fst (generateInsights env s))"
  shows "(\<exists>k. hasIdShape env k i)"
proof -
  obtain k1 k2 k3 k4 k5 where g: "fst (generateInsights env s) =
     fst (degradationInsight env 0) @ fst (bottleneckInsight env k1) @
     fst (highDebtInsight env k2) @ fst (criticalIssueInsight env k3) @
     fst (generateProductivityInsights env k4) @ fst (generateSecurityInsights env k5)"
    using insights_generateInsights by blast
  from assms show ?thesis
    unfolding g set_append Un_iff
    by (blast intro: wf_degradation wf_bottleneck wf_highDebt wf_criticalIssue
          wf_productivity wf_security)
qed

lemma keys_storeInsights:
  "distinct (map fst store) \<Longrightarrow> distinct (map fst (storeInsights insights store))"
  unfolding storeInsights_def
  by (induction insights arbitrary: store) (simp_all add: distinct_update)

lemma in_update:
  "(k', v') \<in> set (AList.update k v al) \<Longrightarrow> (k', v') \<in> set al \<or> (k' = k \<and> v' = v)"
  by (induction al) (auto split: if_splits)

lemma keyed_storeInsights:
  "\<forall>(k, v)\<in>set store. insightId v = k \<Longrightarrow>
   \<forall>(k, v)\<in>set (storeInsights insights store). insightId v = k"
  unfolding storeInsights_def
proof (induction insights arbitrary: store)
  case Nil
  then show ?case by simp
next
  case (Cons x xs)
  have "\<forall>(k, v)\<in>set (AList.update (insightId x) x store). insightId v = k"
    using Cons.prems by (auto dest: in_update)
  then show ?case
    using Cons.IH by simp
qed

lemma map_of_storeInsights_other:
  "k \<notin> insightId ` set insights \<Longrightarrow> map_of (storeInsights insights store) k = map_of store k"
  unfolding storeInsights_def
  by (induction insights arbitrary: store) (simp_all add: update_conv')

lemma map_of_storeInsights:
  "distinct (map insightId insights) \<Longrightarrow> i \<in> set insights \<Longrightarrow>
   map_of (storeInsights insights store) (insightId i) = Some i"
proof (induction insights arbitrary: store)
  case Nil
  then show ?case by simp
next
  case (Cons x xs)
  show ?case
  proof (cases "i \<in> set xs")
    case True
    with Cons show ?thesis
      by (simp add: storeInsights_def)
  next
    case False
    with Cons.prems have "i = x" and "insightId x \<notin> insightId ` set xs"
      by auto
    then have "map_of (storeInsights (x # xs) store) (insightId i) =
        map_of (AList.update (insightId x) x store) (insightId x)"
      using map_of_storeInsights_other [of "insightId x" xs "AList.update (insightId x) x store"]
      by (simp add: storeInsights_def)
    with \<open>i = x\<close> show ?thesis
      by (simp add: update_conv')
  qed
qed

lemma store_generateInsights:
  "generatedInsights (snd (generateInsights env s)) =
     storeInsights (fst (generateInsights env s)) (generatedInsights s)"
  by (simp add: generateInsights_def Let_def)

text \<open>
  Claim C5, amended. Every insight of one generateInsights pass has an id made of the
  prefix of its category, the clock reading taken just before the one of its timestamp,
  and the fixed index (1 or 2) of the block that produced it. The ids of one pass are
  pairwise distinct whatever the clock readings are, every insight of the pass is in the
  store under its id afterwards, and the store keeps one entry per id, each entry filed
  under the id of its insight. (The index is a constant of the block, not a counter:
  passes that read the same clock value produce the same ids again, and the later
  insight replaces the earlier one in the store.)
\<close>

theorem generateInsights_ids:
  "(\<forall>i\<in>set (fst (generateInsights env s)). (\<exists>k. hasIdShape env k i))
   \<and> distinct (map insightId (fst (generateInsights env s)))
   \<and> (\<forall>i\<in>set (fst (generateInsights env s)).
        map_of (generatedInsights (snd (generateInsights env s))) (insightId i) = Some i)
   \<and> (distinct (map fst (generatedInsights s)) \<longrightarrow>
        distinct (map fst (generatedInsights (snd (generateInsights env s)))))
   \<and> ((\<forall>(k, v)\<in>set (generatedInsights s). insightId v = k) \<longrightarrow>
        (\<forall>(k, v)\<in>set (generatedInsights (snd (generateInsights env s))). insightId v = k))"
proof -
  have wf: "\<forall>i\<in>set (fst (generateInsights env s)). (\<exists>k. hasIdShape env k i)"
    by (rule ballI) (rule wf_generateInsights)
  have d: "distinct (map insightId (fst (generateInsights env s)))"
    by (rule distinct_ids_generateInsights)
  have stored: "\<forall>i\<in>set (fst (generateInsights env s)).
        map_of (generatedInsights (snd (generateInsights env s))) (insightId i) = Some i"
    unfolding store_generateInsights
    by (rule ballI) (rule map_of_storeInsights [OF d])
  have keys: "distinct (map fst (generatedInsights s)) \<longrightarrow>
        distinct (map fst (generatedInsights (snd (generateInsights env s))))"
    unfolding store_generateInsights
    by (rule impI) (rule keys_storeInsights)
  have keyed: "(\<forall>(k, v)\<in>set (generatedInsights s). insightId v = k) \<longrightarrow>
        (\<forall>(k, v)\<in>set (generatedInsights (snd (generateInsights env s))). insightId v = k)"
    unfolding store_generateInsights
    by (rule impI) (rule keyed_storeInsights)
  show ?thesis
    by (rule conjI [OF wf conjI [OF d conjI [OF stored conjI [OF keys keyed]]]])
qed

section \<open>Acceptance rate\<close>

lemma fold_countFeedback:
  "fold countFeedback l c = (fst c + length l, snd c + length (filter helpful l))"
  by (induction l arbitrary: c) (simp_all add: countFeedback_def)

lemma fold_feedback_lists:
  "fold (\<lambda>entry c. fold countFeedback (snd entry) c) al c =
     (fst c + length (concat (map snd al)),
      snd c + length (filter helpful (concat (map snd al))))"
  by (induction al arbitrary: c) (simp_all add: fold_countFeedback)

lemma getInsightAcceptanceRate_allFeedback:
  "getInsightAcceptanceRate s =
     (if allFeedback s = [] then 0
      else real (length (filter helpful (allFeedback s))) / real (length (allFeedback s)))"
  by (simp add: getInsightAcceptanceRate_def fold_feedback_lists allFeedback_def Let_def)

lemma update_missing_key: "map_of al k = None \<Longrightarrow> AList.update k v al = al @ [(k, v)]"
  by (induction al) (auto split: if_splits)

lemma count_update_existing:
  "map_of al k = Some l \<Longrightarrow>
   length (filter P (concat (map snd (AList.update k (l @ [x]) al)))) =
     length (filter P (concat (map snd al))) + (if P x then 1 else 0)"
  by (induction al) (auto split: if_splits)

lemma count_provideInsightFeedback:
  "length (filter P (allFeedback (provideInsightFeedback i h c s))) =
     length (filter P (allFeedback s)) + (if P \<lparr>helpful = h, comment = c\<rparr> then 1 else 0)"
proof (cases "map_of (insightFeedback s) i")
  case None
  let ?fb = "AList.update i [] (insightFeedback s)"
  have fb: "?fb = insightFeedback s @ [(i, [])]"
    using None by (rule update_missing_key)
  have look: "map_of ?fb i = Some []"
    by (simp add: update_conv')
  have same: "concat (map snd ?fb) = concat (map snd (insightFeedback s))"
    by (simp add: fb)
  have "insightFeedback (provideInsightFeedback i h c s) =
      AList.update i ([] @ [\<lparr>helpful = h, comment = c\<rparr>]) ?fb"
    using None look by (simp add: provideInsightFeedback_def Let_def)
  then show ?thesis
    unfolding allFeedback_def
    using count_update_existing [OF look, of P "\<lparr>helpful = h, comment = c\<rparr>"]
    by (simp only: same)
next
  case (Some l)
  then have "insightFeedback (provideInsightFeedback i h c s) =
      AList.update i (l @ [\<lparr>helpful = h, comment = c\<rparr>]) (insightFeedback s)"
    by (simp add: provideInsightFeedback_def Let_def)
  then show ?thesis
    unfolding allFeedback_def
    using count_update_existing [OF Some, of P "\<lparr>helpful = h, comment = c\<rparr>"]
    by simp
qed

lemma count_feedbackAll:
  "length (filter P (allFeedback (feedbackAll calls s))) =
     length (filter P (allFeedback s)) +
     length (filter (\<lambda>(i, h, c). P \<lparr>helpful = h, comment = c\<rparr>) calls)"
proof (induction calls arbitrary: s)
  case Nil
  then show ?case by simp
next
  case (Cons call calls)
  obtain i h c where call: "call = (i, h, c)"
    by (cases call) auto
  show ?case
    by (simp add: call Cons.IH count_provideInsightFeedback)
qed

lemma allFeedback_initial: "allFeedback initialInsightState = []"
  by (simp add: allFeedback_def initialInsightState_def)

text \<open>
  Claim C7. getInsightAcceptanceRate is the number of helpful feedback records divided by
  the number of all feedback records stored, over all insights; it is 0 when there is no
  record and 1 when there are records and every one is helpful. The stored records are
  the ones ever given: after any sequence of provideInsightFeedback calls from the
  initial state there is one record per call, so the rate is the fraction of helpful
  calls.
\<close>

theorem getInsightAcceptanceRate_ratio:
  "getInsightAcceptanceRate s =
     (if allFeedback s = [] then 0
      else real (length (filter helpful (allFeedback s))) / real (length (allFeedback s)))
   \<and> (allFeedback s = [] \<longrightarrow> getInsightAcceptanceRate s = 0)
   \<and> (allFeedback s \<noteq> [] \<and> (\<forall>f\<in>set (allFeedback s). helpful f)
        \<longrightarrow> getInsightAcceptanceRate s = 1)
   \<and> length (allFeedback (feedbackAll calls initialInsightState)) = length calls
   \<and> length (filter helpful (allFeedback (feedbackAll calls initialInsightState))) =
       length (filter (\<lambda>(i, h, c). h) calls)
   \<and> getInsightAcceptanceRate (feedbackAll calls initialInsightState) =
       (if calls = [] then 0
        else real (length (filter (\<lambda>(i, h, c). h) calls)) / real (length calls))"
proof -
  have rate: "getInsightAcceptanceRate s =
     (if allFeedback s = [] then 0
      else real (length (filter helpful (allFeedback s))) / real (length (allFeedback s)))"
    for s
    by (rule getInsightAcceptanceRate_allFeedback)
  have none: "allFeedback s = [] \<longrightarrow> getInsightAcceptanceRate s = 0"
    by (simp add: rate)
  have every: "allFeedback s \<noteq> [] \<and> (\<forall>f\<in>set (allFeedback s). helpful f)
        \<longrightarrow> getInsightAcceptanceRate s = 1"
    by (simp add: rate)
  have total: "length (allFeedback (feedbackAll calls initialInsightState)) = length calls"
    using count_feedbackAll [of "\<lambda>f. True" calls initialInsightState]
    by (simp add: allFeedback_initial case_prod_beta)
  have good: "length (filter helpful (allFeedback (feedbackAll calls initialInsightState))) =
       length (filter (\<lambda>(i, h, c). h) calls)"
    using count_feedbackAll [of helpful calls initialInsightState]
    by (simp add: allFeedback_initial)
  have "allFeedback (feedbackAll calls initialInsightState) = [] \<longleftrightarrow> calls = []"
    using total by (metis length_0_conv)
  then have run: "getInsightAcceptanceRate (feedbackAll calls initialInsightState) =
       (if calls = [] then 0
        else real (length (filter (\<lambda>(i, h, c). h) calls)) / real (length calls))"
    by (simp add: rate total good)
  show ?thesis
    by (rule conjI [OF rate conjI [OF none conjI [OF every conjI [OF total conjI [OF good run]]]]])
qed

lemma allFeedback_helpfulCalls:
  "allFeedback (feedbackAll helpfulCalls initialInsightState) =
     [\<lparr>helpful = True, comment = None\<rparr>, \<lparr>helpful = True, comment = None\<rparr>,
      \<lparr>helpful = True, comment = Some ''fixed''\<rparr>]"
  by (simp add: helpfulCalls_def initialInsightState_def provideInsightFeedback_def
        allFeedback_def Let_def)

theorem getInsightAcceptanceRate_ratio_witness:
  "allFeedback (feedbackAll helpfulCalls initialInsightState) \<noteq> []
   \<and> getInsightAcceptanceRate (feedbackAll helpfulCalls initialInsightState) = 1
   \<and> allFeedback initialInsightState = []
   \<and> getInsightAcceptanceRate initialInsightState = 0
   \<and> getInsightAcceptanceRate
       (feedbackAll [(''perf-1700000000000-1'', True, None),
                     (''perf-1700000000000-1'', False, Some ''not useful'')]
          initialInsightState) = 1 / 2"
  using getInsightAcceptanceRate_ratio
      [of "feedbackAll helpfulCalls initialInsightState" "[]"]
    getInsightAcceptanceRate_ratio [of initialInsightState
      "[(''perf-1700000000000-1'', True, None),
        (''perf-1700000000000-1'', False, Some ''not useful'')]"]
  by (simp add: allFeedback_helpfulCalls allFeedback_initial)

section \<open>Worked examples of insight generation\<close>

lemmas run_generateInsights = generateInsights_def fst_andThen snd_andThen generators Let_def
  render storeInsights_def


lemma scores_sourceEnv:
  "map insightScore (fst (generateInsights sourceEnv s)) =
     [234.6, 191.25, 134.64, 342, 139.4]"
  by (simp add: run_generateInsights sourceEnv_def insightScore_def priorityWeight_def)




text \<open>
  Claim C5, as stated. Two passes within the same millisecond, the first on a degraded
  and the second on a critical health report, generate two different insights with the
  same id; the second replaces the first in the store.
\<close>

theorem generateInsights_id_collision_counterexample:
  "fst (generateInsights (stalledClockEnv Degraded) initialInsightState) =
     [\<lparr>insightId = ''perf-1700000000000-1'', category = Performance, priority = High,
       impact = 85, confidence = 0.92, recommendations = [], timestamp = 1700000000000\<rparr>]
   \<and> fst (generateInsights (stalledClockEnv CriticalStatus)
          (snd (generateInsights (stalledClockEnv Degraded) initialInsightState))) =
     [\<lparr>insightId = ''perf-1700000000000-1'', category = Performance, priority = Critical,
       impact = 85, confidence = 0.92, recommendations = [], timestamp = 1700000000000\<rparr>]
   \<and> generatedInsights (snd (generateInsights (stalledClockEnv CriticalStatus)
          (snd (generateInsights (stalledClockEnv Degraded) initialInsightState)))) =
     [(''perf-1700000000000-1'',
       \<lparr>insightId = ''perf-1700000000000-1'', category = Performance, priority = Critical,
        impact = 85, confidence = 0.92, recommendations = [], timestamp = 1700000000000\<rparr>)]"
  by (simp add: run_generateInsights stalledClockEnv_def initialInsightState_def)

lemma keys_after_sourceEnv:
  "map fst (generatedInsights (snd (generateInsights sourceEnv initialInsightState))) =
     [''perf-1700000000000-1'', ''perf-1700000000002-2'', ''quality-1700000000004-1'',
      ''quality-1700000000006-2'', ''productivity-1700000000008-1'']"
  by (simp add: run_generateInsights sourceEnv_def initialInsightState_def)

lemma keys_after_second_pass:
  "map fst (generatedInsights (snd (generateInsights tieEnv
       (snd (generateInsights sourceEnv initialInsightState))))) =
     [''perf-1700000000000-1'', ''perf-1700000000002-2'', ''quality-1700000000004-1'',
      ''quality-1700000000006-2'', ''productivity-1700000000008-1'',
      ''quality-1700000000000-2'', ''security-1700000000002-1'']"
  by (simp add: run_generateInsights sourceEnv_def tieEnv_def initialInsightState_def)

text \<open>
  A second pass on the store a first pass has filled: seven entries, seven ids.
\<close>

theorem generateInsights_ids_witness:
  "distinct (map fst (generatedInsights (snd (generateInsights sourceEnv initialInsightState))))
   \<and> map (insightId \<circ> snd)
         (generatedInsights (snd (generateInsights sourceEnv initialInsightState))) =
       map fst (generatedInsights (snd (generateInsights sourceEnv initialInsightState)))
   \<and> map (insightId \<circ> snd) (generatedInsights (snd (generateInsights tieEnv
         (snd (generateInsights sourceEnv initialInsightState))))) =
       map fst (generatedInsights (snd (generateInsights tieEnv
         (snd (generateInsights sourceEnv initialInsightState)))))
   \<and> hasIdShape tieEnv 0 (fst (generateInsights tieEnv
         (snd (generateInsights sourceEnv initialInsightState))) ! 0)
   \<and> hasIdShape tieEnv 2 (fst (generateInsights tieEnv
         (snd (generateInsights sourceEnv initialInsightState))) ! 1)
   \<and> map insightId (fst (generateInsights tieEnv
         (snd (generateInsights sourceEnv initialInsightState)))) =
       [''quality-1700000000000-2'', ''security-1700000000002-1'']
   \<and> distinct (map insightId (fst (generateInsights tieEnv
         (snd (generateInsights sourceEnv initialInsightState)))))
   \<and> map fst (generatedInsights (snd (generateInsights tieEnv
         (snd (generateInsights sourceEnv initialInsightState))))) =
       [''perf-1700000000000-1'', ''perf-1700000000002-2'', ''quality-1700000000004-1'',
        ''quality-1700000000006-2'', ''productivity-1700000000008-1'',
        ''quality-1700000000000-2'', ''security-1700000000002-1'']
   \<and> distinct (map fst (generatedInsights (snd (generateInsights tieEnv
         (snd (generateInsights sourceEnv initialInsightState))))))"
proof -
  let ?s1 = "snd (generateInsights sourceEnv initialInsightState)"
  have before: "distinct (map fst (generatedInsights ?s1))"
    by (simp add: keys_after_sourceEnv)
  from generateInsights_ids [of tieEnv ?s1] before
  have ids: "distinct (map insightId (fst (generateInsights tieEnv ?s1)))"
    and after: "distinct (map fst (generatedInsights (snd (generateInsights tieEnv ?s1))))"
    by blast+
  have run: "map insightId (fst (generateInsights tieEnv ?s1)) =
       [''quality-1700000000000-2'', ''security-1700000000002-1'']"
    by (simp add: run_generateInsights tieEnv_def)
  have shape: "hasIdShape tieEnv 0 (fst (generateInsights tieEnv ?s1) ! 0)"
    "hasIdShape tieEnv 2 (fst (generateInsights tieEnv ?s1) ! 1)"
  proof -
    have clock: "dateNow tieEnv k = 1700000000000 + int k" for k
      by (simp add: tieEnv_def)
    show "hasIdShape tieEnv 0 (fst (generateInsights tieEnv ?s1) ! 0)"
      by (simp add: insights_tieEnv hasIdShape_def categoryPrefix_def clock render)
    show "hasIdShape tieEnv 2 (fst (generateInsights tieEnv ?s1) ! 1)"
      by (simp add: insights_tieEnv hasIdShape_def categoryPrefix_def clock render)
  qed
  have keyed_before: "\<forall>(k, v)\<in>set (generatedInsights ?s1). insightId v = k"
    by (simp add: run_generateInsights sourceEnv_def initialInsightState_def)
  with generateInsights_ids [of tieEnv ?s1]
  have keyed_after:
    "\<forall>(k, v)\<in>set (generatedInsights (snd (generateInsights tieEnv ?s1))). insightId v = k"
    by blast
  have m1: "map (insightId \<circ> snd) (generatedInsights ?s1) = map fst (generatedInsights ?s1)"
    using keyed_before by (intro map_cong refl) auto
  have m2: "map (insightId \<circ> snd) (generatedInsights (snd (generateInsights tieEnv ?s1))) =
      map fst (generatedInsights (snd (generateInsights tieEnv ?s1)))"
    using keyed_after by (intro map_cong refl) auto
  from before m1 m2 shape ids after run keys_after_second_pass show ?thesis
    by blast
qed

text \<open>Two users, one acknowledged insight: both get the remaining insight.\<close>

theorem getPersonalizedInsights_ignores_user_witness:
  "map insightId (fst (getPersonalizedInsights ''alice'' tieEnv
       (acknowledgeInsight ''quality-1700000000000-2'' initialInsightState))) =
     [''security-1700000000002-1'']
   \<and> map insightId (fst (getPersonalizedInsights ''bob'' tieEnv
       (acknowledgeInsight ''quality-1700000000000-2'' initialInsightState))) =
     [''security-1700000000002-1'']"
  using getPersonalizedInsights_ignores_user [of "''alice''" tieEnv
      "acknowledgeInsight ''quality-1700000000000-2'' initialInsightState" "''bob''"]
  by (simp add: getPersonalizedInsights_def case_prod_beta slice0_def run_generateInsights
        tieEnv_def acknowledgeInsight_def initialInsightState_def)

end
